theory Spec2Isabelle
  imports Main
begin

section \<open>The Rust generator of protoc: \<^verbatim>\<open>compiler/rust/generator.cc\<close>\<close>

text \<open>
  A shallow embedding of \<^verbatim>\<open>src/google/protobuf/compiler/rust/generator.cc\<close>:
  \<^verbatim>\<open>EmitPublicImportsForDepFile\<close>, \<^verbatim>\<open>EmitPublicImports\<close>,
  \<^verbatim>\<open>DeclareSubmodulesForNonPrimarySrcs\<close> and \<^verbatim>\<open>RustGenerator::Generate\<close>.

  Conventions of the embedding.
  \<^item> A \<^verbatim>\<open>const FileDescriptor*\<close> is an address (\<open>file_ptr\<close>); the descriptor pool
    is the store that maps an address to the descriptor it points to. Pointer
    comparison is comparison of addresses.
  \<^item> What an \<^verbatim>\<open>io::Printer\<close> has written is the list of its lines. An \<^verbatim>\<open>Emit\<close>
    of a raw-string template appends the lines of the template with its variables
    substituted; \<^verbatim>\<open>PrintRaw("\n")\<close> appends one empty line.
  \<^item> Functions that the file calls and that are defined in other files of the
    compiler (naming, option parsing, per-type generators) are the fields of the record
    \<open>externals\<close>; they are parameters of every definition that calls them.
\<close>

subsection \<open>Descriptors\<close>

type_synonym file_ptr = nat

datatype Descriptor = Descriptor (full_name: string)

datatype EnumDescriptor = EnumDescriptor (enum_full_name: string)

record FileDescriptor =
  name :: string
  message_type :: "Descriptor list"
  enum_type :: "EnumDescriptor list"
  dependency :: "file_ptr list"
  public_dependency :: "file_ptr list"

type_synonym pool = "file_ptr \<Rightarrow> FileDescriptor"

subsection \<open>Options and contexts\<close>

datatype Kernel = kUpb | kCpp

record Options =
  kernel :: Kernel
  strip_nonfunctional_codegen :: bool

record RustGeneratorContext =
  files_in_current_crate :: "file_ptr list"
  import_path_to_crate_name :: "string \<rightharpoonup> string"

text \<open>The \<^verbatim>\<open>Context\<close> without its printer; the printers are passed explicitly.\<close>

record Context =
  opts :: Options
  generator_context :: RustGeneratorContext
  modules :: "string list"

type_synonym printer = "string list"

text \<open>
  Modelled from the spec: \<^verbatim>\<open>Context::is_cpp\<close> (\<^verbatim>\<open>context.h\<close> is not among the
  sources). The kernel mode is a two-valued selector, native-interop or pure-target.
\<close>

definition is_cpp :: "Context \<Rightarrow> bool" where
  "is_cpp ctx = (kernel (opts ctx) = kCpp)"

text \<open>
  Modelled from the spec: \<^verbatim>\<open>RustGeneratorContext::is_file_in_current_crate\<close> and
  \<^verbatim>\<open>RustGeneratorContext::primary_file\<close> (\<^verbatim>\<open>context.h\<close> is not among the sources).
  CrateMembership answers whether a file is part of the current unit; the first element
  of the unit is its primary file.
\<close>

definition is_file_in_current_crate :: "RustGeneratorContext \<Rightarrow> file_ptr \<Rightarrow> bool" where
  "is_file_in_current_crate rgc f = (f \<in> set (files_in_current_crate rgc))"

definition primary_file :: "RustGeneratorContext \<Rightarrow> file_ptr" where
  "primary_file rgc = hd (files_in_current_crate rgc)"

subsection \<open>Functions defined outside \<^verbatim>\<open>generator.cc\<close>\<close>

record externals =
  Options_Parse :: "string \<Rightarrow> string + Options"
  GetImportPathToCrateNameMap :: "Options \<Rightarrow> string + (string \<rightharpoonup> string)"
  RustInternalModuleName :: "FileDescriptor \<Rightarrow> string"
  GetRsFile :: "Context \<Rightarrow> FileDescriptor \<Rightarrow> string"
  GetThunkCcFile :: "Context \<Rightarrow> FileDescriptor \<Rightarrow> string"
  GetHeaderFile :: "Context \<Rightarrow> FileDescriptor \<Rightarrow> string"
  Relative :: "string \<Rightarrow> string \<Rightarrow> string"
  IsKnownFeatureProto :: "string \<Rightarrow> bool"
  MessageTypeName :: "Descriptor \<Rightarrow> string"
  EnumTypeName :: "EnumDescriptor \<Rightarrow> string"
  GenerateRs :: "Context \<Rightarrow> Descriptor \<Rightarrow> string list"
  GenerateThunksCc :: "Context \<Rightarrow> Descriptor \<Rightarrow> string list"
  GenerateEnumDefinition :: "Context \<Rightarrow> EnumDescriptor \<Rightarrow> string list"

text \<open>
  \<open>Options_Parse\<close> and \<open>GetImportPathToCrateNameMap\<close> return an
  \<^verbatim>\<open>absl::StatusOr\<close>: \<open>Inl\<close> carries the message of a status that is not ok.
  \<open>Relative a b\<close> is \<^verbatim>\<open>RelativePath(a).Relative(RelativePath(b))\<close>. The three
  generators return the lines they write to the printer of the context they get.
\<close>

datatype LookupError = LookupError string

text \<open>
  Modelled from the spec: \<^verbatim>\<open>GetCrateName\<close> (\<^verbatim>\<open>naming.cc\<close> and \<^verbatim>\<open>context.h\<close> are
  not among the sources). \<^verbatim>\<open>ExternalCrateOf(file)\<close> returns the crate identifier that
  the mapping gives for the path of the file, and fails with a lookup error if the
  path is absent from the mapping; a miss is a hard failure, never a default.
\<close>

definition GetCrateName :: "Context \<Rightarrow> FileDescriptor \<Rightarrow> LookupError + string" where
  "GetCrateName ctx dep =
     (case import_path_to_crate_name (generator_context ctx) (name dep) of
        None \<Rightarrow> Inl (LookupError (name dep))
      | Some crate_name \<Rightarrow> Inr crate_name)"

text \<open>
  Modelled from the spec: \<^verbatim>\<open>RsTypePath\<close> (\<^verbatim>\<open>naming.cc\<close> is not among the sources).
  The textual path of a forwarding declaration is the external crate identifier of the
  file that defines the type, joined with the naming resolver's qualified path for the
  type. The file of every type that \<^verbatim>\<open>EmitPublicImportsForDepFile\<close> passes is
  \<^verbatim>\<open>dep\<close>, so the crate identifier is the one looked up for \<^verbatim>\<open>dep\<close>.
\<close>

definition RsTypePath :: "string \<Rightarrow> string \<Rightarrow> string" where
  "RsTypePath crate_name type_name = crate_name @ ''::'' @ type_name"

subsection \<open>\<^verbatim>\<open>EmitPublicImportsForDepFile\<close>\<close>

definition pub_use_message :: "string \<Rightarrow> string list" where
  "pub_use_message path =
     [''pub use '' @ path @ '';'',
      ''pub use '' @ path @ ''View;'',
      ''pub use '' @ path @ ''Mut;'']"

definition pub_use_enum :: "string \<Rightarrow> string list" where
  "pub_use_enum path = [''pub use '' @ path @ '';'']"

text \<open>
  The crate name is looked up first; a miss ends the pass there. Then one \<^verbatim>\<open>Emit\<close> per
  message and one per enum, in the order of the descriptor.
\<close>

definition EmitPublicImportsForDepFile ::
  "externals \<Rightarrow> Context \<Rightarrow> FileDescriptor \<Rightarrow> printer \<Rightarrow> (LookupError + unit) \<times> printer" where
  "EmitPublicImportsForDepFile ext ctx dep out =
     (case GetCrateName ctx dep of
        Inl e \<Rightarrow> (Inl e, out)
      | Inr crate_name \<Rightarrow>
          (Inr (),
           out
           @ concat (map (\<lambda>msg. pub_use_message (RsTypePath crate_name (MessageTypeName ext msg)))
                         (message_type dep))
           @ concat (map (\<lambda>enum. pub_use_enum (RsTypePath crate_name (EnumTypeName ext enum)))
                         (enum_type dep))))"

subsection \<open>\<^verbatim>\<open>EmitPublicImports\<close>\<close>

text \<open>
  The vector \<^verbatim>\<open>files_to_visit\<close> is a list whose last element is \<^verbatim>\<open>back()\<close>. The loop
  has no bound in the source, so it is a partial function: \<open>None\<close> is a run that never
  leaves the loop.
\<close>

partial_function (option) EmitPublicImports_loop ::
  "externals \<Rightarrow> pool \<Rightarrow> RustGeneratorContext \<Rightarrow> Context \<Rightarrow> file_ptr list \<Rightarrow> printer
     \<Rightarrow> ((LookupError + unit) \<times> printer) option" where
  "EmitPublicImports_loop ext pool rgc ctx files_to_visit out =
     (if files_to_visit = [] then Some (Inr (), out)
      else
        let f = last files_to_visit;
            popped = butlast files_to_visit
        in (case (if \<not> is_file_in_current_crate rgc f
                  then EmitPublicImportsForDepFile ext ctx (pool f) out
                  else (Inr (), out)) of
              (Inl e, out') \<Rightarrow> Some (Inl e, out')
            | (Inr u, out') \<Rightarrow>
                EmitPublicImports_loop ext pool rgc ctx
                  (popped @ public_dependency (pool f)) out'))"

definition EmitPublicImports ::
  "externals \<Rightarrow> pool \<Rightarrow> RustGeneratorContext \<Rightarrow> Context \<Rightarrow> file_ptr \<Rightarrow> printer
     \<Rightarrow> ((LookupError + unit) \<times> printer) option" where
  "EmitPublicImports ext pool rgc ctx file out =
     EmitPublicImports_loop ext pool rgc ctx [file] out"

subsection \<open>\<^verbatim>\<open>DeclareSubmodulesForNonPrimarySrcs\<close>\<close>

definition submodule_declaration :: "string \<Rightarrow> string \<Rightarrow> string list" where
  \<open>submodule_declaration file_path mod_name =
     [''#[path="'' @ file_path @ ''"]'',
      ''#[allow(non_snake_case)]'',
      ''mod '' @ mod_name @ '';'',
      '''',
      ''#[allow(unused_imports)]'',
      ''pub use '' @ mod_name @ ''::*;'']\<close>

definition DeclareSubmodulesForNonPrimarySrcs ::
  "externals \<Rightarrow> Context \<Rightarrow> FileDescriptor \<Rightarrow> FileDescriptor list \<Rightarrow> printer \<Rightarrow> printer" where
  "DeclareSubmodulesForNonPrimarySrcs ext ctx primary non_primary_srcs out =
     (let primary_file_path = GetRsFile ext ctx primary
      in out @ concat (map (\<lambda>non_primary_src.
                 let non_primary_file_path = GetRsFile ext ctx non_primary_src;
                     relative_mod_path = Relative ext primary_file_path non_primary_file_path
                 in submodule_declaration relative_mod_path
                      (RustInternalModuleName ext non_primary_src))
               non_primary_srcs))"

subsection \<open>\<^verbatim>\<open>RustGenerator::Generate\<close>\<close>

text \<open>
  The outputs that the pass has opened with \<^verbatim>\<open>GeneratorContext::Open\<close>, each with
  its path and the lines written to it: \<open>outfile\<close> is the bindings output,
  \<open>thunks_cc\<close> the shim output; \<open>None\<close> is an output that was never opened
  (the \<^verbatim>\<open>unique_ptr\<close> is null).
\<close>

record outputs =
  outfile :: "(string \<times> printer) option"
  thunks_cc :: "(string \<times> printer) option"

definition no_outputs :: outputs where
  "no_outputs = \<lparr>outfile = None, thunks_cc = None\<rparr>"

text \<open>
  How a pass ends: it returns a \<^verbatim>\<open>bool\<close> and leaves \<^verbatim>\<open>*error\<close> unset (\<open>None\<close>) or
  set; or a crate lookup fails and ends the pass without a return; or it indexes the
  empty vector of parsed files.
\<close>

datatype outcome = Returned bool "string option" | Fatal LookupError | OutOfRange

definition include_line :: "string \<Rightarrow> string" where
  \<open>include_line h = ''#include "'' @ h @ ''"''\<close>

definition support_headers :: "string list" where
  "support_headers =
     [include_line ''google/protobuf/map.h'',
      include_line ''google/protobuf/repeated_field.h'',
      include_line ''google/protobuf/repeated_ptr_field.h'',
      include_line ''rust/cpp_kernel/serialized_data.h'',
      include_line ''rust/cpp_kernel/strings.h'']"

text \<open>Lines 182 to 207: the one \<^verbatim>\<open>Emit\<close> that stamps the head of the shim output.\<close>

definition thunks_header :: "externals \<Rightarrow> pool \<Rightarrow> Context \<Rightarrow> FileDescriptor \<Rightarrow> string list" where
  "thunks_header ext pool ctx file =
     [include_line (GetHeaderFile ext ctx file)]
     @ map (\<lambda>d. include_line (GetHeaderFile ext ctx (pool d)))
           (filter (\<lambda>d. \<not> (strip_nonfunctional_codegen (opts ctx)
                              \<and> IsKnownFeatureProto ext (name (pool d))))
                   (dependency file))
     @ support_headers"

text \<open>
  Lines 212 to 227 and 229 to 242: the body of each loop, on the pair of what the
  bindings printer and the shim printer have written.
\<close>

definition message_step ::
  "externals \<Rightarrow> Context \<Rightarrow> Descriptor \<Rightarrow> printer \<times> printer \<Rightarrow> printer \<times> printer" where
  "message_step ext ctx msg p =
     (let rs = fst p @ GenerateRs ext ctx msg @ ['''']
      in if is_cpp ctx
         then (rs, snd p @ [''// '' @ full_name msg] @ GenerateThunksCc ext ctx msg @ [''''])
         else (rs, snd p))"

definition enum_step ::
  "externals \<Rightarrow> Context \<Rightarrow> EnumDescriptor \<Rightarrow> printer \<times> printer \<Rightarrow> printer \<times> printer" where
  "enum_step ext ctx enum p =
     (let rs = fst p @ GenerateEnumDefinition ext ctx enum @ ['''']
      in if is_cpp ctx
         then (rs, snd p @ [''// '' @ enum_full_name enum] @ [''''])
         else (rs, snd p))"

text \<open>
  \<open>parsed_files\<close> is what \<^verbatim>\<open>ListParsedFiles\<close> stores in
  \<^verbatim>\<open>files_in_current_crate\<close>. The result is \<open>None\<close> when the pass never ends, and
  otherwise how it ended together with the outputs opened until then.

  The steps follow the source: the options (lines 123 to 127), the crate mapping (lines
  132 to 137), \<^verbatim>\<open>files_in_current_crate[0]\<close> (line 143, out of range on an empty
  vector), the bindings output (lines 150 to 153), the submodule declarations of the
  primary file (lines 171 to 174), the shim output and its header in cpp mode (lines 176
  to 208), the public imports (line 210), the messages (lines 212 to 227), the enums
  (lines 229 to 242) and \<^verbatim>\<open>return true\<close> (line 244). The printer variables of lines
  156 to 165 write nothing; they are read by the per-type generators only.
\<close>

definition Generate ::
  "externals \<Rightarrow> pool \<Rightarrow> file_ptr list \<Rightarrow> file_ptr \<Rightarrow> string \<Rightarrow> (outcome \<times> outputs) option" where
  "Generate ext pool parsed_files file parameter =
     (case Options_Parse ext parameter of
        Inl message \<Rightarrow> Some (Returned False (Some message), no_outputs)
      | Inr options \<Rightarrow>
     (case GetImportPathToCrateNameMap ext options of
        Inl message \<Rightarrow> Some (Returned False (Some message), no_outputs)
      | Inr crate_names \<Rightarrow>
     (case parsed_files of
        [] \<Rightarrow> Some (OutOfRange, no_outputs)
      | first # non_primary_srcs \<Rightarrow>
          let rust_generator_context =
                \<lparr>files_in_current_crate = parsed_files,
                 import_path_to_crate_name = crate_names\<rparr>;
              ctx = \<lparr>opts = options, generator_context = rust_generator_context,
                     modules = (if file \<noteq> first
                                then [RustInternalModuleName ext (pool file)] else [])\<rparr>;
              rs_path = GetRsFile ext ctx (pool file);
              rs1 = (if file = primary_file rust_generator_context
                     then DeclareSubmodulesForNonPrimarySrcs ext ctx (pool file)
                            (map pool non_primary_srcs) []
                     else []);
              thunks1 = (if is_cpp ctx then thunks_header ext pool ctx (pool file) else []);
              opened = (\<lambda>rs thunks.
                 \<lparr>outfile = Some (rs_path, rs),
                  thunks_cc = (if is_cpp ctx
                               then Some (GetThunkCcFile ext ctx (pool file), thunks)
                               else None)\<rparr>)
          in (case EmitPublicImports ext pool rust_generator_context ctx file rs1 of
                None \<Rightarrow> None
              | Some (Inl e, rs2) \<Rightarrow> Some (Fatal e, opened rs2 thunks1)
              | Some (Inr u, rs2) \<Rightarrow>
                  let p3 = fold (message_step ext ctx) (message_type (pool file)) (rs2, thunks1);
                      p4 = fold (enum_step ext ctx) (enum_type (pool file)) p3
                  in Some (Returned True None, opened (fst p4) (snd p4))))))"

declare EmitPublicImports_loop.simps [code]

section \<open>Specification of the pass\<close>

text \<open>
  The definitions of this section are not in the source: they say what the pass is
  expected to write, and the theorems relate them to the definitions above.

  \<open>public_import pool\<close> is the relation "publicly imports". \<open>public_unfold pool n f\<close>
  lists the files on the chains of public imports that start at \<open>f\<close> and have at most
  \<open>n\<close> edges, each file once for every chain that leads to it, in the order in which a
  stack visits them (the public dependency declared last comes first).
  \<open>public_depth_le pool n f\<close> holds when no chain of public imports from \<open>f\<close> has
  more than \<open>n\<close> edges; it fails for every \<open>n\<close> on a cycle.
  \<open>public_path_count pool n f g\<close> counts the chains of at most \<open>n\<close> edges from
  \<open>f\<close> to \<open>g\<close>.
\<close>

fun public_unfold :: "pool \<Rightarrow> nat \<Rightarrow> file_ptr \<Rightarrow> file_ptr list" where
  "public_unfold pool 0 f = [f]"
| "public_unfold pool (Suc n) f =
     f # concat (map (public_unfold pool n) (rev (public_dependency (pool f))))"

fun public_depth_le :: "pool \<Rightarrow> nat \<Rightarrow> file_ptr \<Rightarrow> bool" where
  "public_depth_le pool 0 f = (public_dependency (pool f) = [])"
| "public_depth_le pool (Suc n) f =
     (\<forall>d \<in> set (public_dependency (pool f)). public_depth_le pool n d)"

text \<open>
  \<open>visit_files\<close> handles a list of files the way one round of the loop handles the
  file it pops, and stops at the first crate lookup that fails.
\<close>

fun visit_files ::
  "externals \<Rightarrow> pool \<Rightarrow> RustGeneratorContext \<Rightarrow> Context \<Rightarrow> file_ptr list \<Rightarrow> printer
     \<Rightarrow> (LookupError + unit) \<times> printer" where
  "visit_files ext pool rgc ctx [] out = (Inr (), out)"
| "visit_files ext pool rgc ctx (f # fs) out =
     (case (if \<not> is_file_in_current_crate rgc f
            then EmitPublicImportsForDepFile ext ctx (pool f) out
            else (Inr (), out)) of
        (Inl e, out') \<Rightarrow> (Inl e, out')
      | (Inr u, out') \<Rightarrow> visit_files ext pool rgc ctx fs out')"

definition continue_with ::
  "(LookupError + unit) \<times> printer \<Rightarrow> (printer \<Rightarrow> ((LookupError + unit) \<times> printer) option)
     \<Rightarrow> ((LookupError + unit) \<times> printer) option" where
  "continue_with r k = (case r of (Inl e, out') \<Rightarrow> Some (Inl e, out') | (Inr u, out') \<Rightarrow> k out')"

text \<open>
  \<open>forwarding_block\<close>: the lines that \<^verbatim>\<open>EmitPublicImportsForDepFile\<close> appends for
  a file. \<open>out_of_unit\<close>: the files of a list that are outside the current crate.
\<close>

definition forwarding_block :: "externals \<Rightarrow> Context \<Rightarrow> FileDescriptor \<Rightarrow> string list" where
  "forwarding_block ext ctx dep = snd (EmitPublicImportsForDepFile ext ctx dep [])"

definition public_import :: "pool \<Rightarrow> (file_ptr \<times> file_ptr) set" where
  "public_import pool = {(f, d). d \<in> set (public_dependency (pool f))}"

fun public_path_count :: "pool \<Rightarrow> nat \<Rightarrow> file_ptr \<Rightarrow> file_ptr \<Rightarrow> nat" where
  "public_path_count pool 0 f g = (if f = g then 1 else 0)"
| "public_path_count pool (Suc n) f g =
     (if f = g then 1 else 0)
     + sum_list (map (\<lambda>d. public_path_count pool n d g) (public_dependency (pool f)))"

definition out_of_unit :: "RustGeneratorContext \<Rightarrow> file_ptr list \<Rightarrow> file_ptr list" where
  "out_of_unit rgc fs = filter (\<lambda>f. \<not> is_file_in_current_crate rgc f) fs"

definition crate_mapped :: "Context \<Rightarrow> FileDescriptor \<Rightarrow> bool" where
  "crate_mapped ctx dep = (import_path_to_crate_name (generator_context ctx) (name dep) \<noteq> None)"

text \<open>
  \<open>pass_context\<close> is the \<^verbatim>\<open>Context\<close> that \<^verbatim>\<open>Generate\<close> builds in lines 139 to
  148. The other definitions name the parts of the two outputs: the submodule
  declarations, the forwarding declarations, the per-type part of the bindings and the
  per-type part of the shim.
\<close>

definition pass_context ::
  "externals \<Rightarrow> pool \<Rightarrow> Options \<Rightarrow> (string \<rightharpoonup> string) \<Rightarrow> file_ptr list \<Rightarrow> file_ptr \<Rightarrow> Context" where
  "pass_context ext pool options crate_names parsed_files file =
     \<lparr>opts = options,
      generator_context =
        \<lparr>files_in_current_crate = parsed_files, import_path_to_crate_name = crate_names\<rparr>,
      modules = (if file \<noteq> hd parsed_files
                 then [RustInternalModuleName ext (pool file)] else [])\<rparr>"

definition bindings_types :: "externals \<Rightarrow> Context \<Rightarrow> FileDescriptor \<Rightarrow> string list" where
  "bindings_types ext ctx file =
     concat (map (\<lambda>msg. GenerateRs ext ctx msg @ ['''']) (message_type file))
     @ concat (map (\<lambda>enum. GenerateEnumDefinition ext ctx enum @ ['''']) (enum_type file))"

definition shim_types :: "externals \<Rightarrow> Context \<Rightarrow> FileDescriptor \<Rightarrow> string list" where
  "shim_types ext ctx file =
     concat (map (\<lambda>msg. [''// '' @ full_name msg] @ GenerateThunksCc ext ctx msg @ [''''])
                 (message_type file))
     @ concat (map (\<lambda>enum. [''// '' @ enum_full_name enum, '''']) (enum_type file))"

definition submodule_lines ::
  "externals \<Rightarrow> pool \<Rightarrow> Context \<Rightarrow> file_ptr list \<Rightarrow> file_ptr \<Rightarrow> string list" where
  "submodule_lines ext pool ctx parsed_files file =
     (if file = hd parsed_files
      then concat (map (\<lambda>src. submodule_declaration
                                 (Relative ext (GetRsFile ext ctx (pool file))
                                               (GetRsFile ext ctx (pool src)))
                                 (RustInternalModuleName ext (pool src)))
                       (tl parsed_files))
      else [])"

definition public_import_lines ::
  "externals \<Rightarrow> pool \<Rightarrow> Context \<Rightarrow> nat \<Rightarrow> file_ptr \<Rightarrow> string list" where
  "public_import_lines ext pool ctx n file =
     concat (map (\<lambda>f. forwarding_block ext ctx (pool f))
                 (out_of_unit (generator_context ctx) (public_unfold pool n file)))"

definition opened_outputs ::
  "externals \<Rightarrow> Context \<Rightarrow> FileDescriptor \<Rightarrow> string list \<Rightarrow> string list \<Rightarrow> outputs" where
  "opened_outputs ext ctx file rs thunks =
     \<lparr>outfile = Some (GetRsFile ext ctx file, rs),
      thunks_cc = (if is_cpp ctx then Some (GetThunkCcFile ext ctx file, thunks) else None)\<rparr>"

text \<open>
  The forwarding declarations as the specification words them: three re-exports for a
  message (the type, its view and its mutable view) and one for an enum, each qualified
  by the crate identifier.
\<close>

definition forwarding_declarations :: "externals \<Rightarrow> string \<Rightarrow> FileDescriptor \<Rightarrow> string list" where
  "forwarding_declarations ext crate dep =
     concat (map (\<lambda>msg. [''pub use '' @ crate @ ''::'' @ MessageTypeName ext msg @ '';'',
                          ''pub use '' @ crate @ ''::'' @ MessageTypeName ext msg @ ''View;'',
                          ''pub use '' @ crate @ ''::'' @ MessageTypeName ext msg @ ''Mut;''])
                 (message_type dep))
     @ concat (map (\<lambda>enum. [''pub use '' @ crate @ ''::'' @ EnumTypeName ext enum @ '';''])
                   (enum_type dep))"

text \<open>
  Modelled from the spec: what the driver keeps of a pass (the driver and its
  \<^verbatim>\<open>GeneratorContext\<close> are not among the sources). A pass either completes and flushes,
  or fails and the whole generation of the file is discarded: the outputs held by a pass
  are committed when it returns true, and nothing is committed when it returns false,
  ends at a failed lookup or never ends.
\<close>

definition succeeded :: "outcome \<Rightarrow> bool" where
  "succeeded how = (case how of Returned result err \<Rightarrow> result | Fatal e \<Rightarrow> False
                    | OutOfRange \<Rightarrow> False)"

definition committed :: "(outcome \<times> outputs) option \<Rightarrow> outputs" where
  "committed run =
     (case run of
        None \<Rightarrow> no_outputs
      | Some (how, held) \<Rightarrow> if succeeded how then held else no_outputs)"

section \<open>Example inputs\<close>

text \<open>
  Concrete inputs on which the theorems are instantiated. \<open>demo_pool\<close>: \<^verbatim>\<open>a.proto\<close> (0)
  imports \<^verbatim>\<open>b.proto\<close> (1) publicly and \<^verbatim>\<open>p.proto\<close> (3) privately; \<^verbatim>\<open>b.proto\<close> publicly
  imports \<^verbatim>\<open>x.proto\<close> (2), which the crate mapping knows; \<^verbatim>\<open>p.proto\<close> publicly imports
  \<^verbatim>\<open>y.proto\<close> (4), which it does not know. \<open>diamond_pool\<close>: \<^verbatim>\<open>x.proto\<close> (3) is reached
  from \<^verbatim>\<open>a.proto\<close> (0) through \<^verbatim>\<open>b.proto\<close> (1) and through \<^verbatim>\<open>c.proto\<close> (2).
  \<open>collide_pool\<close>: two files whose names differ only after the first dot.
  \<open>cycle_pool\<close>: \<^verbatim>\<open>a.proto\<close> (0) and \<^verbatim>\<open>b.proto\<close> (1) publicly import each other.
\<close>

definition demo_crate_names :: "string \<rightharpoonup> string" where
  "demo_crate_names = [''x.proto'' \<mapsto> ''ext'']"

definition stem :: "string \<Rightarrow> string" where
  "stem path = takeWhile (\<lambda>c. c \<noteq> CHR ''.'') path"

definition demo_externals :: externals where
  "demo_externals =
     \<lparr>Options_Parse = (\<lambda>parameter.
          if parameter = ''kernel=cpp''
          then Inr \<lparr>kernel = kCpp, strip_nonfunctional_codegen = False\<rparr>
          else if parameter = ''kernel=cpp,strip''
          then Inr \<lparr>kernel = kCpp, strip_nonfunctional_codegen = True\<rparr>
          else if parameter = ''kernel=upb''
          then Inr \<lparr>kernel = kUpb, strip_nonfunctional_codegen = False\<rparr>
          else Inl (''Unknown option: '' @ parameter)),
      GetImportPathToCrateNameMap = (\<lambda>options. Inr demo_crate_names),
      RustInternalModuleName = (\<lambda>file. stem (name file)),
      GetRsFile = (\<lambda>ctx file. stem (name file) @ ''.pb.rs''),
      GetThunkCcFile = (\<lambda>ctx file. stem (name file) @ ''.pb.thunks.cc''),
      GetHeaderFile = (\<lambda>ctx file. stem (name file) @ ''.proto.h''),
      Relative = (\<lambda>from_path to_path. to_path),
      IsKnownFeatureProto = (\<lambda>path. path = ''google/protobuf/cpp_features.proto''),
      MessageTypeName = full_name,
      EnumTypeName = enum_full_name,
      GenerateRs = (\<lambda>ctx msg. [''pub struct '' @ full_name msg @ '';'']),
      GenerateThunksCc = (\<lambda>ctx msg. [''void thunk_'' @ full_name msg @ ''();'']),
      GenerateEnumDefinition = (\<lambda>ctx enum. [''pub enum '' @ enum_full_name enum @ '';''])\<rparr>"

definition empty_file :: FileDescriptor where
  "empty_file = \<lparr>name = [], message_type = [], enum_type = [], dependency = [],
                  public_dependency = []\<rparr>"

definition demo_pool :: pool where
  "demo_pool f =
     (if f = 0 then \<lparr>name = ''a.proto'', message_type = [Descriptor ''A''], enum_type = [],
                     dependency = [1, 3, 5], public_dependency = [1]\<rparr>
      else if f = 1 then \<lparr>name = ''b.proto'', message_type = [], enum_type = [EnumDescriptor ''B''],
                     dependency = [2], public_dependency = [2]\<rparr>
      else if f = 2 then \<lparr>name = ''x.proto'', message_type = [Descriptor ''M''],
                     enum_type = [EnumDescriptor ''Q''],
                     dependency = [], public_dependency = []\<rparr>
      else if f = 3 then \<lparr>name = ''p.proto'', message_type = [Descriptor ''P''], enum_type = [],
                     dependency = [4], public_dependency = [4]\<rparr>
      else if f = 4 then \<lparr>name = ''y.proto'', message_type = [Descriptor ''Y''], enum_type = [],
                     dependency = [], public_dependency = []\<rparr>
      else if f = 5 then \<lparr>name = ''google/protobuf/cpp_features.proto'', message_type = [],
                     enum_type = [], dependency = [], public_dependency = []\<rparr>
      else empty_file)"

definition demo_rgc :: RustGeneratorContext where
  "demo_rgc = \<lparr>files_in_current_crate = [0, 1],
               import_path_to_crate_name = demo_crate_names\<rparr>"

definition demo_ctx :: Context where
  "demo_ctx = \<lparr>opts = \<lparr>kernel = kCpp, strip_nonfunctional_codegen = False\<rparr>,
               generator_context = demo_rgc, modules = []\<rparr>"

definition diamond_pool :: pool where
  "diamond_pool f =
     (if f = 0 then \<lparr>name = ''a.proto'', message_type = [], enum_type = [],
                     dependency = [1, 2], public_dependency = [1, 2]\<rparr>
      else if f = 1 then \<lparr>name = ''b.proto'', message_type = [], enum_type = [],
                     dependency = [3], public_dependency = [3]\<rparr>
      else if f = 2 then \<lparr>name = ''c.proto'', message_type = [], enum_type = [],
                     dependency = [3], public_dependency = [3]\<rparr>
      else if f = 3 then \<lparr>name = ''x.proto'', message_type = [Descriptor ''M''], enum_type = [],
                     dependency = [], public_dependency = []\<rparr>
      else empty_file)"

definition diamond_rgc :: RustGeneratorContext where
  "diamond_rgc = \<lparr>files_in_current_crate = [0, 1, 2],
                  import_path_to_crate_name = demo_crate_names\<rparr>"

definition diamond_ctx :: Context where
  "diamond_ctx = \<lparr>opts = \<lparr>kernel = kUpb, strip_nonfunctional_codegen = False\<rparr>,
                  generator_context = diamond_rgc, modules = []\<rparr>"

definition collide_pool :: pool where
  "collide_pool f =
     (if f = 0 then \<lparr>name = ''a.proto'', message_type = [], enum_type = [],
                     dependency = [], public_dependency = []\<rparr>
      else if f = 1 then \<lparr>name = ''x.proto'', message_type = [], enum_type = [],
                     dependency = [], public_dependency = []\<rparr>
      else if f = 2 then \<lparr>name = ''x.protodevel'', message_type = [], enum_type = [],
                     dependency = [], public_dependency = []\<rparr>
      else empty_file)"

definition cycle_pool :: pool where
  "cycle_pool f =
     (if f = 0 then \<lparr>name = ''a.proto'', message_type = [], enum_type = [],
                     dependency = [1], public_dependency = [1]\<rparr>
      else if f = 1 then \<lparr>name = ''b.proto'', message_type = [], enum_type = [],
                     dependency = [0], public_dependency = [0]\<rparr>
      else empty_file)"

definition cycle_rgc :: RustGeneratorContext where
  "cycle_rgc = \<lparr>files_in_current_crate = [0, 1],
                import_path_to_crate_name = demo_crate_names\<rparr>"

definition cycle_ctx :: Context where
  "cycle_ctx = \<lparr>opts = \<lparr>kernel = kUpb, strip_nonfunctional_codegen = False\<rparr>,
                generator_context = cycle_rgc, modules = []\<rparr>"

section \<open>The public-import traversal\<close>

lemma visit_files_append:
  "visit_files ext pool rgc ctx (xs @ ys) out =
     (case visit_files ext pool rgc ctx xs out of
        (Inl e, out') \<Rightarrow> (Inl e, out')
      | (Inr u, out') \<Rightarrow> visit_files ext pool rgc ctx ys out')"
  by (induction xs arbitrary: out) (auto split: prod.splits sum.splits)

lemma continue_with_append:
  "continue_with (visit_files ext pool rgc ctx (xs @ ys) out) k =
     continue_with (visit_files ext pool rgc ctx xs out)
       (\<lambda>out'. continue_with (visit_files ext pool rgc ctx ys out') k)"
  by (auto simp: visit_files_append continue_with_def split: prod.splits sum.splits)

lemma loop_pop:
  "EmitPublicImports_loop ext pool rgc ctx (s @ [f]) out =
     continue_with (visit_files ext pool rgc ctx [f] out)
       (EmitPublicImports_loop ext pool rgc ctx (s @ public_dependency (pool f)))"
  by (subst EmitPublicImports_loop.simps)
     (auto simp: continue_with_def Let_def split: prod.splits sum.splits)

lemma loop_unfold_list:
  assumes step: "\<And>d s out. d \<in> set ds \<Longrightarrow>
            EmitPublicImports_loop ext pool rgc ctx (s @ [d]) out =
              continue_with (visit_files ext pool rgc ctx (public_unfold pool n d) out)
                (EmitPublicImports_loop ext pool rgc ctx s)"
  shows "EmitPublicImports_loop ext pool rgc ctx (s @ ds) out =
           continue_with
             (visit_files ext pool rgc ctx (concat (map (public_unfold pool n) (rev ds))) out)
             (EmitPublicImports_loop ext pool rgc ctx s)"
  using step
proof (induction ds arbitrary: out rule: rev_induct)
  case Nil
  show ?case by (simp add: continue_with_def)
next
  case (snoc d ds)
  have "EmitPublicImports_loop ext pool rgc ctx (s @ ds @ [d]) out =
          continue_with (visit_files ext pool rgc ctx (public_unfold pool n d) out)
            (EmitPublicImports_loop ext pool rgc ctx (s @ ds))"
    using snoc.prems [of d "s @ ds" out] by simp
  moreover have "EmitPublicImports_loop ext pool rgc ctx (s @ ds) =
            (\<lambda>out'. continue_with
               (visit_files ext pool rgc ctx (concat (map (public_unfold pool n) (rev ds))) out')
               (EmitPublicImports_loop ext pool rgc ctx s))"
    using snoc.IH snoc.prems by (intro HOL.ext) simp
  ultimately show ?case
    by (simp add: continue_with_append)
qed

lemma loop_unfold:
  "public_depth_le pool n f \<Longrightarrow>
     EmitPublicImports_loop ext pool rgc ctx (s @ [f]) out =
       continue_with (visit_files ext pool rgc ctx (public_unfold pool n f) out)
         (EmitPublicImports_loop ext pool rgc ctx s)"
proof (induction n arbitrary: f s out)
  case 0
  then show ?case by (simp add: loop_pop)
next
  case (Suc n)
  have "EmitPublicImports_loop ext pool rgc ctx (s @ [f]) out =
     continue_with (visit_files ext pool rgc ctx [f] out)
       (EmitPublicImports_loop ext pool rgc ctx (s @ public_dependency (pool f)))"
    by (rule loop_pop)
  moreover have "EmitPublicImports_loop ext pool rgc ctx (s @ public_dependency (pool f)) =
       (\<lambda>out'. continue_with
          (visit_files ext pool rgc ctx
             (concat (map (public_unfold pool n) (rev (public_dependency (pool f))))) out')
          (EmitPublicImports_loop ext pool rgc ctx s))"
    using Suc.IH Suc.prems by (intro HOL.ext loop_unfold_list) simp
  ultimately show ?case
    using continue_with_append [of ext pool rgc ctx "[f]"] by simp
qed

lemma EmitPublicImports_unfold:
  assumes "public_depth_le pool n file"
  shows "EmitPublicImports ext pool rgc ctx file out =
           Some (visit_files ext pool rgc ctx (public_unfold pool n file) out)"
proof -
  have "EmitPublicImports_loop ext pool rgc ctx ([] @ [file]) out =
       continue_with (visit_files ext pool rgc ctx (public_unfold pool n file) out)
         (EmitPublicImports_loop ext pool rgc ctx [])"
    using assms by (rule loop_unfold)
  moreover have "EmitPublicImports_loop ext pool rgc ctx [] = (\<lambda>out. Some (Inr (), out))"
    by (intro HOL.ext) (simp add: EmitPublicImports_loop.simps)
  ultimately show ?thesis
    by (auto simp: EmitPublicImports_def continue_with_def split: prod.splits sum.splits)
qed

lemma EmitPublicImportsForDepFile_snd:
  "snd (EmitPublicImportsForDepFile ext ctx dep out) = out @ forwarding_block ext ctx dep"
  by (simp add: forwarding_block_def EmitPublicImportsForDepFile_def split: sum.splits)

lemma EmitPublicImportsForDepFile_mapped:
  "crate_mapped ctx dep \<Longrightarrow>
     EmitPublicImportsForDepFile ext ctx dep out = (Inr (), out @ forwarding_block ext ctx dep)"
  by (auto simp: forwarding_block_def EmitPublicImportsForDepFile_def GetCrateName_def
        crate_mapped_def split: sum.splits option.splits)

lemma EmitPublicImportsForDepFile_unmapped:
  "\<not> crate_mapped ctx dep \<Longrightarrow>
     EmitPublicImportsForDepFile ext ctx dep out = (Inl (LookupError (name dep)), out)"
  by (auto simp: EmitPublicImportsForDepFile_def GetCrateName_def crate_mapped_def)

lemma forwarding_block_mapped:
  "import_path_to_crate_name (generator_context ctx) (name dep) = Some crate_name \<Longrightarrow>
     forwarding_block ext ctx dep =
       concat (map (\<lambda>msg. [''pub use '' @ crate_name @ ''::'' @ MessageTypeName ext msg @ '';'',
                            ''pub use '' @ crate_name @ ''::'' @ MessageTypeName ext msg @ ''View;'',
                            ''pub use '' @ crate_name @ ''::'' @ MessageTypeName ext msg @ ''Mut;''])
                   (message_type dep))
       @ concat (map (\<lambda>enum. [''pub use '' @ crate_name @ ''::'' @ EnumTypeName ext enum @ '';''])
                     (enum_type dep))"
  by (simp add: forwarding_block_def EmitPublicImportsForDepFile_def GetCrateName_def
        RsTypePath_def pub_use_message_def pub_use_enum_def)

lemma forwarding_block_unmapped:
  "\<not> crate_mapped ctx dep \<Longrightarrow> forwarding_block ext ctx dep = []"
  by (simp add: forwarding_block_def EmitPublicImportsForDepFile_unmapped)

lemma visit_files_mapped:
  "\<forall>f \<in> set (out_of_unit rgc vs). crate_mapped ctx (pool f) \<Longrightarrow>
     visit_files ext pool rgc ctx vs out =
       (Inr (), out @ concat (map (\<lambda>f. forwarding_block ext ctx (pool f)) (out_of_unit rgc vs)))"
  by (induction vs arbitrary: out)
     (auto simp: out_of_unit_def EmitPublicImportsForDepFile_mapped)

lemma visit_files_unmapped:
  "\<exists>f \<in> set (out_of_unit rgc vs). \<not> crate_mapped ctx (pool f) \<Longrightarrow>
     \<exists>pre g post. vs = pre @ g # post
       \<and> (\<forall>f \<in> set (out_of_unit rgc pre). crate_mapped ctx (pool f))
       \<and> \<not> is_file_in_current_crate rgc g \<and> \<not> crate_mapped ctx (pool g)
       \<and> visit_files ext pool rgc ctx vs out =
           (Inl (LookupError (name (pool g))),
            out @ concat (map (\<lambda>f. forwarding_block ext ctx (pool f)) (out_of_unit rgc pre)))"
proof (induction vs arbitrary: out)
  case Nil
  then show ?case by (simp add: out_of_unit_def)
next
  case (Cons v vs)
  show ?case
  proof (cases "\<not> is_file_in_current_crate rgc v \<and> \<not> crate_mapped ctx (pool v)")
    case True
    then have "visit_files ext pool rgc ctx (v # vs) out = (Inl (LookupError (name (pool v))), out)"
      by (simp add: EmitPublicImportsForDepFile_unmapped)
    with True show ?thesis
      by (intro exI [of _ "[]"] exI [of _ v] exI [of _ vs]) (simp add: out_of_unit_def)
  next
    case False
    let ?out = "out @ concat (map (\<lambda>f. forwarding_block ext ctx (pool f)) (out_of_unit rgc [v]))"
    from False have step: "visit_files ext pool rgc ctx (v # vs) out =
        visit_files ext pool rgc ctx vs ?out"
      by (auto simp: out_of_unit_def EmitPublicImportsForDepFile_mapped)
    from False Cons.prems have "\<exists>f \<in> set (out_of_unit rgc vs). \<not> crate_mapped ctx (pool f)"
      by (auto simp: out_of_unit_def split: if_splits)
    from Cons.IH [OF this, of ?out] obtain pre g post where
      IH: "vs = pre @ g # post"
        "\<forall>f \<in> set (out_of_unit rgc pre). crate_mapped ctx (pool f)"
        "\<not> is_file_in_current_crate rgc g" "\<not> crate_mapped ctx (pool g)"
        "visit_files ext pool rgc ctx vs ?out =
           (Inl (LookupError (name (pool g))),
            ?out @ concat (map (\<lambda>f. forwarding_block ext ctx (pool f)) (out_of_unit rgc pre)))"
      by blast
    from IH False step show ?thesis
      by (intro exI [of _ "v # pre"] exI [of _ g] exI [of _ post])
         (auto simp: out_of_unit_def)
  qed
qed

lemma visit_files_emits:
  "\<exists>emitted. snd (visit_files ext pool rgc ctx vs out) =
       out @ concat (map (\<lambda>f. forwarding_block ext ctx (pool f)) emitted)
     \<and> set emitted \<subseteq> set (out_of_unit rgc vs)"
proof (cases "\<forall>f \<in> set (out_of_unit rgc vs). crate_mapped ctx (pool f)")
  case True
  then show ?thesis
    by (intro exI [of _ "out_of_unit rgc vs"]) (simp add: visit_files_mapped)
next
  case False
  then have "\<exists>f \<in> set (out_of_unit rgc vs). \<not> crate_mapped ctx (pool f)" by blast
  from visit_files_unmapped [OF this, of ext out] obtain pre g post where
    "vs = pre @ g # post"
    "visit_files ext pool rgc ctx vs out =
           (Inl (LookupError (name (pool g))),
            out @ concat (map (\<lambda>f. forwarding_block ext ctx (pool f)) (out_of_unit rgc pre)))"
    by blast
  then show ?thesis
    by (intro exI [of _ "out_of_unit rgc pre"]) (auto simp: out_of_unit_def)
qed

lemma public_unfold_reachable:
  "g \<in> set (public_unfold pool n f) \<Longrightarrow> (f, g) \<in> (public_import pool)\<^sup>*"
proof (induction n arbitrary: f)
  case 0
  then show ?case by simp
next
  case (Suc n)
  then show ?case
    by (auto simp: public_import_def intro: converse_rtrancl_into_rtrancl)
qed

lemma reachable_public_unfold:
  "(f, g) \<in> (public_import pool)\<^sup>* \<Longrightarrow> public_depth_le pool n f \<Longrightarrow>
     g \<in> set (public_unfold pool n f)"
proof (induction n arbitrary: f)
  case 0
  then show ?case
    by (auto simp: public_import_def elim: converse_rtranclE)
next
  case (Suc n)
  from Suc.prems(1) show ?case
  proof (cases rule: converse_rtranclE)
    case base
    then show ?thesis by simp
  next
    case (step d)
    then have "d \<in> set (public_dependency (pool f))" by (simp add: public_import_def)
    moreover from this Suc.prems(2) have "public_depth_le pool n d" by simp
    ultimately show ?thesis using Suc.IH [OF step(2)] by auto
  qed
qed

lemma set_public_unfold:
  "public_depth_le pool n f \<Longrightarrow>
     set (public_unfold pool n f) = {g. (f, g) \<in> (public_import pool)\<^sup>*}"
  using public_unfold_reachable reachable_public_unfold by blast

lemma count_list_concat:
  "count_list (concat xss) x = sum_list (map (\<lambda>xs. count_list xs x) xss)"
  by (induction xss) simp_all

lemma sum_list_map_rev:
  "sum_list (map h (rev xs)) = (sum_list (map h xs) :: nat)"
  by (simp add: rev_map [symmetric])

lemma count_public_unfold:
  "count_list (public_unfold pool n f) g = public_path_count pool n f g"
proof (induction n arbitrary: f)
  case 0
  then show ?case by simp
next
  case (Suc n)
  then show ?case
    by (simp add: count_list_concat comp_def sum_list_map_rev)
qed

lemma fold_message_step:
  "fold (message_step ext ctx) msgs (rs, thunks) =
     (rs @ concat (map (\<lambda>msg. GenerateRs ext ctx msg @ ['''']) msgs),
      if is_cpp ctx
      then thunks @ concat (map (\<lambda>msg. [''// '' @ full_name msg] @ GenerateThunksCc ext ctx msg @ ['''']) msgs)
      else thunks)"
  by (induction msgs arbitrary: rs thunks) (simp_all add: message_step_def)

lemma fold_enum_step:
  "fold (enum_step ext ctx) enums (rs, thunks) =
     (rs @ concat (map (\<lambda>enum. GenerateEnumDefinition ext ctx enum @ ['''']) enums),
      if is_cpp ctx
      then thunks @ concat (map (\<lambda>enum. [''// '' @ enum_full_name enum, '''']) enums)
      else thunks)"
  by (induction enums arbitrary: rs thunks) (simp_all add: enum_step_def)

lemma fold_type_steps:
  "fold (enum_step ext ctx) (enum_type file)
     (fold (message_step ext ctx) (message_type file) (rs, thunks)) =
     (rs @ bindings_types ext ctx file,
      if is_cpp ctx then thunks @ shim_types ext ctx file else thunks)"
  by (simp add: fold_message_step fold_enum_step bindings_types_def shim_types_def)

lemma DeclareSubmodules_lines:
  "(if file = primary_file (generator_context (pass_context ext pool options crate_names (first # srcs) file))
    then DeclareSubmodulesForNonPrimarySrcs ext ctx (pool file) (map pool srcs) []
    else []) = submodule_lines ext pool ctx (first # srcs) file"
  by (simp add: DeclareSubmodulesForNonPrimarySrcs_def submodule_lines_def primary_file_def
        pass_context_def comp_def)

lemma Generate_unfold:
  assumes parse: "Options_Parse ext parameter = Inr options"
    and crates: "GetImportPathToCrateNameMap ext options = Inr crate_names"
    and unit: "parsed_files = first # non_primary_srcs"
    and depth: "public_depth_le pool n file"
  shows "Generate ext pool parsed_files file parameter =
     (let ctx = pass_context ext pool options crate_names parsed_files file in
      Some (case visit_files ext pool (generator_context ctx) ctx (public_unfold pool n file)
                   (submodule_lines ext pool ctx parsed_files file) of
              (Inl e, rs) \<Rightarrow>
                (Fatal e, opened_outputs ext ctx (pool file) rs
                            (thunks_header ext pool ctx (pool file)))
            | (Inr u, rs) \<Rightarrow>
                (Returned True None,
                 opened_outputs ext ctx (pool file) (rs @ bindings_types ext ctx (pool file))
                   (thunks_header ext pool ctx (pool file) @ shim_types ext ctx (pool file)))))"
proof -
  let ?ctx = "pass_context ext pool options crate_names (first # non_primary_srcs) file"
  have ctx: "\<lparr>opts = options,
       generator_context = \<lparr>files_in_current_crate = first # non_primary_srcs,
                             import_path_to_crate_name = crate_names\<rparr>,
       modules = (if file \<noteq> first then [RustInternalModuleName ext (pool file)] else [])\<rparr> = ?ctx"
    by (simp add: pass_context_def)
  have rgc: "\<lparr>files_in_current_crate = first # non_primary_srcs,
              import_path_to_crate_name = crate_names\<rparr> = generator_context ?ctx"
    by (simp add: pass_context_def)
  show ?thesis
    apply (simp only: Generate_def unit parse crates Let_def sum.case list.case)
    apply (simp only: ctx)
    apply (simp only: rgc DeclareSubmodules_lines EmitPublicImports_unfold [OF depth])
    apply (simp add: fold_type_steps opened_outputs_def split: prod.splits sum.splits)
    done
qed

section \<open>Claims\<close>

text \<open>
  C8. When the options string does not parse, \<^verbatim>\<open>Generate\<close> returns \<open>False\<close> with the
  message of the parse status, unchanged, as the error string, and no output has been
  opened: neither the bindings output nor the shim output exists.
\<close>

theorem Generate_bad_options:
  assumes "Options_Parse ext parameter = Inl message"
  shows "Generate ext pool parsed_files file parameter =
           Some (Returned False (Some message), \<lparr>outfile = None, thunks_cc = None\<rparr>)"
  using assms by (simp add: Generate_def no_outputs_def)

theorem Generate_bad_options_witness:
  "Generate demo_externals demo_pool [0, 1] 0 ''kernel=fast'' =
     Some (Returned False (Some ''Unknown option: kernel=fast''),
           \<lparr>outfile = None, thunks_cc = None\<rparr>)"
  using Generate_bad_options [of demo_externals "''kernel=fast''" "''Unknown option: kernel=fast''"
      demo_pool "[0, 1]" 0]
  by (simp add: demo_externals_def)

lemma forwarding_block_declarations:
  "import_path_to_crate_name (generator_context ctx) (name dep) = Some crate \<Longrightarrow>
     forwarding_block ext ctx dep = forwarding_declarations ext crate dep"
  by (simp add: forwarding_block_mapped forwarding_declarations_def)

lemma length_forwarding_declarations:
  "length (forwarding_declarations ext crate dep) =
     3 * length (message_type dep) + length (enum_type dep)"
  by (simp add: forwarding_declarations_def length_concat comp_def sum_list_triv)

lemma diamond_depth: "public_depth_le diamond_pool (Suc (Suc 0)) 0"
  by (simp add: diamond_pool_def)

lemma diamond_mapped:
  "\<forall>f \<in> set (public_unfold diamond_pool (Suc (Suc 0)) 0).
      \<not> is_file_in_current_crate diamond_rgc f \<longrightarrow>
      import_path_to_crate_name (generator_context diamond_ctx) (name (diamond_pool f)) = Some ''ext''"
  by (simp add: diamond_pool_def diamond_rgc_def demo_crate_names_def diamond_ctx_def
        is_file_in_current_crate_def)

text \<open>
  C1, amended. Let no chain of public imports from the file under generation be longer
  than \<open>n\<close> (the public imports are acyclic), and let the crate mapping give a crate
  identifier for every file outside the unit that lies on such a chain. Then
  \<^verbatim>\<open>EmitPublicImports\<close> ends normally and what it appends is exactly this: for each file
  of \<open>public_unfold\<close> that is outside the unit, in that order, the forwarding declarations
  of the file. The files of \<open>public_unfold\<close> are exactly the files reachable from the file
  under generation along chains of public imports of any length, so a file behind
  several public imports is included and a file behind a plain dependency is not, unless
  public imports lead to it as well; and each file occurs in it once for every chain of
  public imports that leads to it. The forwarding declarations of a file are three
  re-exports for each message (the type, its \<^verbatim>\<open>View\<close> and its \<^verbatim>\<open>Mut\<close>) and one for each
  enum, each with the path of \<^verbatim>\<open>RsTypePath\<close>, which the specification gives as the crate
  identifier of the file joined with the path of the type. So a file outside the unit
  contributes three re-exports per message and one per enum once for every chain that
  leads to it, not once in all.
\<close>

theorem EmitPublicImports_closure_per_chain:
  assumes depth: "public_depth_le pool n file"
    and mapped: "\<forall>f \<in> set (public_unfold pool n file).
                   \<not> is_file_in_current_crate rgc f \<longrightarrow>
                   import_path_to_crate_name (generator_context ctx) (name (pool f))
                     = Some (crate_of f)"
  shows "EmitPublicImports ext pool rgc ctx file out =
           Some (Inr (),
                 out @ concat (map (\<lambda>f. forwarding_declarations ext (crate_of f) (pool f))
                                   (filter (\<lambda>f. \<not> is_file_in_current_crate rgc f)
                                           (public_unfold pool n file))))
       \<and> set (public_unfold pool n file) = {g. (file, g) \<in> (public_import pool)\<^sup>*}
       \<and> (\<forall>g. count_list (public_unfold pool n file) g = public_path_count pool n file g)
       \<and> (\<forall>f. length (forwarding_declarations ext (crate_of f) (pool f)) =
                3 * length (message_type (pool f)) + length (enum_type (pool f)))"
proof -
  let ?vs = "public_unfold pool n file"
  have m: "\<forall>f \<in> set (out_of_unit rgc ?vs). crate_mapped ctx (pool f)"
    using mapped by (simp add: out_of_unit_def crate_mapped_def)
  have eq: "map (\<lambda>f. forwarding_block ext ctx (pool f)) (out_of_unit rgc ?vs) =
        map (\<lambda>f. forwarding_declarations ext (crate_of f) (pool f)) (out_of_unit rgc ?vs)"
    using mapped by (intro map_cong refl forwarding_block_declarations) (simp add: out_of_unit_def)
  have "EmitPublicImports ext pool rgc ctx file out =
      Some (Inr (), out @ concat (map (\<lambda>f. forwarding_block ext ctx (pool f))
                                      (out_of_unit rgc ?vs)))"
    by (simp add: EmitPublicImports_unfold [OF depth] visit_files_mapped [OF m])
  then have "EmitPublicImports ext pool rgc ctx file out =
      Some (Inr (), out @ concat (map (\<lambda>f. forwarding_declarations ext (crate_of f) (pool f))
                                      (out_of_unit rgc ?vs)))"
    by (simp only: eq)
  then show ?thesis
    using set_public_unfold [OF depth]
    by (simp add: out_of_unit_def length_forwarding_declarations count_public_unfold)
qed

theorem EmitPublicImports_closure_per_chain_witness:
  "EmitPublicImports demo_externals diamond_pool diamond_rgc diamond_ctx 0 [] =
     Some (Inr (),
           [] @ concat (map (\<lambda>f. forwarding_declarations demo_externals ''ext'' (diamond_pool f))
                            (filter (\<lambda>f. \<not> is_file_in_current_crate diamond_rgc f)
                                    (public_unfold diamond_pool (Suc (Suc 0)) 0))))
   \<and> set (public_unfold diamond_pool (Suc (Suc 0)) 0) =
       {g. (0, g) \<in> (public_import diamond_pool)\<^sup>*}
   \<and> (\<forall>g. count_list (public_unfold diamond_pool (Suc (Suc 0)) 0) g =
            public_path_count diamond_pool (Suc (Suc 0)) 0 g)
   \<and> (\<forall>f. length (forwarding_declarations demo_externals ''ext'' (diamond_pool f)) =
            3 * length (message_type (diamond_pool f)) + length (enum_type (diamond_pool f)))"
  by (rule EmitPublicImports_closure_per_chain [OF diamond_depth diamond_mapped])

text \<open>
  C1 as stated fails: on the diamond the only file outside the unit that public imports
  reach is \<^verbatim>\<open>x.proto\<close>, with one message and no enum, and six re-exports are emitted,
  not three.
\<close>

theorem EmitPublicImports_diamond_six_reexports:
  "(\<forall>g. ((0, g) \<in> (public_import diamond_pool)\<^sup>* \<and> \<not> is_file_in_current_crate diamond_rgc g)
          = (g = 3))
   \<and> message_type (diamond_pool 3) = [Descriptor ''M'']
   \<and> enum_type (diamond_pool 3) = []
   \<and> (\<exists>emitted.
         EmitPublicImports demo_externals diamond_pool diamond_rgc diamond_ctx 0 [] =
           Some (Inr (), emitted)
       \<and> length emitted = 6)"
proof -
  have unfold: "public_unfold diamond_pool (Suc (Suc 0)) 0 = [0, 2, 3, 1, 3]"
    by (simp add: diamond_pool_def)
  have reach: "{g. (0, g) \<in> (public_import diamond_pool)\<^sup>*} = set [0, 2, 3, 1, 3]"
    using set_public_unfold [OF diamond_depth] by (simp only: unfold)
  have "\<forall>g. ((0, g) \<in> (public_import diamond_pool)\<^sup>* \<and> \<not> is_file_in_current_crate diamond_rgc g)
          = (g = 3)"
  proof
    fix g :: nat
    have "(0, g) \<in> (public_import diamond_pool)\<^sup>* \<longleftrightarrow> g \<in> set [0, 2, 3, 1, 3]"
      using reach by blast
    then show "((0, g) \<in> (public_import diamond_pool)\<^sup>* \<and> \<not> is_file_in_current_crate diamond_rgc g)
          = (g = 3)"
      by (auto simp: is_file_in_current_crate_def diamond_rgc_def)
  qed
  moreover have "EmitPublicImports demo_externals diamond_pool diamond_rgc diamond_ctx 0 [] =
     Some (Inr (), [''pub use ext::M;'', ''pub use ext::MView;'', ''pub use ext::MMut;'',
                    ''pub use ext::M;'', ''pub use ext::MView;'', ''pub use ext::MMut;''])"
    by (simp add: EmitPublicImports_def EmitPublicImports_loop.simps diamond_pool_def
        diamond_rgc_def demo_crate_names_def diamond_ctx_def demo_externals_def
        is_file_in_current_crate_def EmitPublicImportsForDepFile_def GetCrateName_def
        RsTypePath_def pub_use_message_def pub_use_enum_def)
  ultimately show ?thesis
    by (simp add: diamond_pool_def)
qed

text \<open>
  On \<open>demo_pool\<close> the types of \<^verbatim>\<open>x.proto\<close>, two public imports away, are re-exported, and
  those of \<^verbatim>\<open>y.proto\<close>, behind the private import of \<^verbatim>\<open>p.proto\<close>, are not.
\<close>

lemma demo_public_imports:
  "EmitPublicImports demo_externals demo_pool demo_rgc demo_ctx 0 [] =
     Some (Inr (), [''pub use ext::M;'', ''pub use ext::MView;'', ''pub use ext::MMut;'',
                    ''pub use ext::Q;''])"
  by (simp add: EmitPublicImports_def EmitPublicImports_loop.simps demo_pool_def demo_rgc_def demo_crate_names_def
        demo_ctx_def demo_externals_def is_file_in_current_crate_def
        EmitPublicImportsForDepFile_def GetCrateName_def RsTypePath_def pub_use_message_def
        pub_use_enum_def)

text \<open>
  C2 as stated fails: on the diamond the traversal reaches \<^verbatim>\<open>x.proto\<close> twice and emits
  the forwarding declarations of its message twice.
\<close>

theorem EmitPublicImports_diamond_emits_twice:
  "EmitPublicImports demo_externals diamond_pool diamond_rgc diamond_ctx 0 [] =
     Some (Inr (), [''pub use ext::M;'', ''pub use ext::MView;'', ''pub use ext::MMut;'',
                    ''pub use ext::M;'', ''pub use ext::MView;'', ''pub use ext::MMut;''])"
  by (simp add: EmitPublicImports_def EmitPublicImports_loop.simps diamond_pool_def
        diamond_rgc_def demo_crate_names_def diamond_ctx_def demo_externals_def is_file_in_current_crate_def
        EmitPublicImportsForDepFile_def GetCrateName_def RsTypePath_def pub_use_message_def
        pub_use_enum_def)

lemma loop_on_cycle:
  assumes "EmitPublicImports_loop ext pool rgc ctx stack out = Some y"
    and "\<forall>s \<in> set stack. \<forall>g. (s, g) \<in> (public_import pool)\<^sup>* \<longrightarrow>
           is_file_in_current_crate rgc g \<or> crate_mapped ctx (pool g)"
    and "\<exists>s \<in> set stack. \<exists>c. (s, c) \<in> (public_import pool)\<^sup>* \<and> (c, c) \<in> (public_import pool)\<^sup>+"
  shows False
  using assms
proof (induction rule: EmitPublicImports_loop.raw_induct [rotated 1, consumes 1])
  case (1 loop ext pool rgc ctx stack out y)
  note facts = "1"
  let ?R = "public_import pool"
  let ?f = "last stack"
  let ?next = "butlast stack @ public_dependency (pool ?f)"
  from facts(4) have nonempty: "stack \<noteq> []" by auto
  then have split: "stack = butlast stack @ [?f]" by simp
  have f_in: "?f \<in> set stack" using nonempty by simp
  with facts(3) have "is_file_in_current_crate rgc ?f \<or> crate_mapped ctx (pool ?f)" by blast
  then have step: "(if \<not> is_file_in_current_crate rgc ?f
        then EmitPublicImportsForDepFile ext ctx (pool ?f) out
        else (Inr (), out)) =
      (Inr (), if \<not> is_file_in_current_crate rgc ?f
               then out @ forwarding_block ext ctx (pool ?f) else out)"
    by (auto simp: EmitPublicImportsForDepFile_mapped)
  have run: "loop ext pool rgc ctx ?next
      (if \<not> is_file_in_current_crate rgc ?f
       then out @ forwarding_block ext ctx (pool ?f) else out) = Some y"
    using facts(2) nonempty by (simp only: Let_def step if_False) simp
  have deps: "\<And>d. d \<in> set (public_dependency (pool ?f)) \<Longrightarrow> (?f, d) \<in> ?R"
    by (simp add: public_import_def)
  have safe: "\<forall>s \<in> set ?next. \<forall>g. (s, g) \<in> ?R\<^sup>* \<longrightarrow>
           is_file_in_current_crate rgc g \<or> crate_mapped ctx (pool g)"
  proof (intro ballI allI impI)
    fix s g
    assume s: "s \<in> set ?next" and g: "(s, g) \<in> ?R\<^sup>*"
    from s have "s \<in> set stack \<or> s \<in> set (public_dependency (pool ?f))"
      by (auto dest: in_set_butlastD)
    then show "is_file_in_current_crate rgc g \<or> crate_mapped ctx (pool g)"
    proof
      assume "s \<in> set stack"
      with facts(3) g show ?thesis by blast
    next
      assume "s \<in> set (public_dependency (pool ?f))"
      then have "(?f, g) \<in> ?R\<^sup>*" using deps g by (blast intro: converse_rtrancl_into_rtrancl)
      with facts(3) f_in show ?thesis by blast
    qed
  qed
  from facts(4) obtain s c where
    s: "s \<in> set stack" and sc: "(s, c) \<in> ?R\<^sup>*" and cc: "(c, c) \<in> ?R\<^sup>+"
    by blast
  have cyc: "\<exists>s \<in> set ?next. \<exists>c. (s, c) \<in> ?R\<^sup>* \<and> (c, c) \<in> ?R\<^sup>+"
  proof (cases "s \<in> set (butlast stack)")
    case True
    with sc cc show ?thesis by auto
  next
    case False
    with s split have sf: "s = ?f"
      by (metis Un_iff empty_iff empty_set set_ConsD set_append)
    have "\<exists>d. (?f, d) \<in> ?R \<and> (d, c) \<in> ?R\<^sup>*"
    proof (cases "?f = c")
      case True
      with cc show ?thesis by (auto dest: tranclD)
    next
      case False
      with sc sf show ?thesis by (auto elim: converse_rtranclE)
    qed
    then obtain d where "d \<in> set (public_dependency (pool ?f))" "(d, c) \<in> ?R\<^sup>*"
      by (auto simp: public_import_def)
    with cc show ?thesis by auto
  qed
  from facts(1) [OF run safe cyc] show ?case .
qed

lemma EmitPublicImports_cycle_diverges:
  assumes "(file, c) \<in> (public_import pool)\<^sup>*" and "(c, c) \<in> (public_import pool)\<^sup>+"
    and "\<forall>g. (file, g) \<in> (public_import pool)\<^sup>* \<longrightarrow>
           is_file_in_current_crate rgc g \<or> crate_mapped ctx (pool g)"
  shows "EmitPublicImports ext pool rgc ctx file out = None"
proof (cases "EmitPublicImports ext pool rgc ctx file out")
  case None
  then show ?thesis .
next
  case (Some y)
  then have "EmitPublicImports_loop ext pool rgc ctx [file] out = Some y"
    by (simp add: EmitPublicImports_def)
  from loop_on_cycle [OF this] assms show ?thesis by auto
qed

lemma cycle_reachable:
  "(0, g) \<in> (public_import cycle_pool)\<^sup>* \<Longrightarrow> g = 0 \<or> g = 1"
  by (induction rule: rtrancl_induct)
     (auto simp: public_import_def cycle_pool_def split: if_splits)

text \<open>
  C2, amended. The traversal keeps no record of the files it has visited.
  When no chain of public imports from the file under generation is longer than \<open>n\<close>
  (the public imports are acyclic), the traversal ends: it handles the files of
  \<open>public_unfold\<close> in order, each file once for every chain of public imports that leads
  to it, and stops before the end of the list only at a crate lookup that fails.
  When, in addition, the crate mapping knows every file outside the unit on such a
  chain, it ends normally and the forwarding declarations of a file outside the unit are
  emitted once for every chain of public imports that leads to it: twice on a diamond,
  once where one chain leads to the file.
  When a cycle of public imports can be reached from the file under generation and every
  file that can be reached is in the unit or known to the crate mapping, the traversal
  never ends.
\<close>

theorem EmitPublicImports_visits_every_chain:
  "(public_depth_le pool n file \<longrightarrow>
      EmitPublicImports ext pool rgc ctx file out =
        Some (visit_files ext pool rgc ctx (public_unfold pool n file) out)
    \<and> (\<forall>g. count_list (public_unfold pool n file) g = public_path_count pool n file g))
 \<and> (public_depth_le pool n file
    \<and> (\<forall>f \<in> set (public_unfold pool n file).
          \<not> is_file_in_current_crate rgc f \<longrightarrow> crate_mapped ctx (pool f)) \<longrightarrow>
      EmitPublicImports ext pool rgc ctx file out =
        Some (Inr (),
              out @ concat (map (\<lambda>f. forwarding_block ext ctx (pool f))
                                (filter (\<lambda>f. \<not> is_file_in_current_crate rgc f)
                                        (public_unfold pool n file)))))
 \<and> ((file, c) \<in> (public_import pool)\<^sup>* \<and> (c, c) \<in> (public_import pool)\<^sup>+
    \<and> (\<forall>g. (file, g) \<in> (public_import pool)\<^sup>* \<longrightarrow>
             is_file_in_current_crate rgc g \<or> crate_mapped ctx (pool g)) \<longrightarrow>
      EmitPublicImports ext pool rgc ctx file out = None)"
proof (intro conjI impI)
  assume "public_depth_le pool n file"
  then show "EmitPublicImports ext pool rgc ctx file out =
        Some (visit_files ext pool rgc ctx (public_unfold pool n file) out)"
    by (rule EmitPublicImports_unfold)
next
  show "\<forall>g. count_list (public_unfold pool n file) g = public_path_count pool n file g"
    by (simp add: count_public_unfold)
next
  assume h: "public_depth_le pool n file
    \<and> (\<forall>f \<in> set (public_unfold pool n file).
          \<not> is_file_in_current_crate rgc f \<longrightarrow> crate_mapped ctx (pool f))"
  then have m: "\<forall>f \<in> set (out_of_unit rgc (public_unfold pool n file)). crate_mapped ctx (pool f)"
    by (simp add: out_of_unit_def)
  from h have d: "public_depth_le pool n file" by simp
  show "EmitPublicImports ext pool rgc ctx file out =
        Some (Inr (),
              out @ concat (map (\<lambda>f. forwarding_block ext ctx (pool f))
                                (filter (\<lambda>f. \<not> is_file_in_current_crate rgc f)
                                        (public_unfold pool n file))))"
    by (simp add: EmitPublicImports_unfold [OF d] visit_files_mapped [OF m] out_of_unit_def)
next
  assume "(file, c) \<in> (public_import pool)\<^sup>* \<and> (c, c) \<in> (public_import pool)\<^sup>+
    \<and> (\<forall>g. (file, g) \<in> (public_import pool)\<^sup>* \<longrightarrow>
             is_file_in_current_crate rgc g \<or> crate_mapped ctx (pool g))"
  then show "EmitPublicImports ext pool rgc ctx file out = None"
    by (intro EmitPublicImports_cycle_diverges [where c = c]) blast+
qed

theorem EmitPublicImports_visits_every_chain_witness:
  "EmitPublicImports demo_externals diamond_pool diamond_rgc diamond_ctx 0 [] =
     Some (Inr (),
           [] @ concat (map (\<lambda>f. forwarding_block demo_externals diamond_ctx (diamond_pool f))
                            (filter (\<lambda>f. \<not> is_file_in_current_crate diamond_rgc f)
                                    (public_unfold diamond_pool (Suc (Suc 0)) 0))))
   \<and> count_list (public_unfold diamond_pool (Suc (Suc 0)) 0) 3 = 2
   \<and> EmitPublicImports demo_externals cycle_pool cycle_rgc cycle_ctx 0 [] = None"
proof -
  have mapped: "\<forall>f \<in> set (public_unfold diamond_pool (Suc (Suc 0)) 0).
      \<not> is_file_in_current_crate diamond_rgc f \<longrightarrow> crate_mapped diamond_ctx (diamond_pool f)"
    using diamond_mapped by (simp add: crate_mapped_def)
  note diamond = EmitPublicImports_visits_every_chain
    [of diamond_pool "Suc (Suc 0)" 0 demo_externals diamond_rgc diamond_ctx "[]"]
  have first: "EmitPublicImports demo_externals diamond_pool diamond_rgc diamond_ctx 0 [] =
     Some (Inr (),
           [] @ concat (map (\<lambda>f. forwarding_block demo_externals diamond_ctx (diamond_pool f))
                            (filter (\<lambda>f. \<not> is_file_in_current_crate diamond_rgc f)
                                    (public_unfold diamond_pool (Suc (Suc 0)) 0))))"
    using diamond diamond_depth mapped by blast
  have "count_list (public_unfold diamond_pool (Suc (Suc 0)) 0) 3 =
          public_path_count diamond_pool (Suc (Suc 0)) 0 3"
    using diamond diamond_depth by blast
  then have second: "count_list (public_unfold diamond_pool (Suc (Suc 0)) 0) 3 = 2"
    by (simp add: diamond_pool_def)
  have step01: "(0, 1) \<in> public_import cycle_pool" and step10: "(1, 0) \<in> public_import cycle_pool"
    by (simp_all add: public_import_def cycle_pool_def)
  have cyc: "(0, 0) \<in> (public_import cycle_pool)\<^sup>+"
    using step01 step10 by (rule trancl_into_trancl [OF r_into_trancl])
  have safe: "\<forall>g. (0, g) \<in> (public_import cycle_pool)\<^sup>* \<longrightarrow>
             is_file_in_current_crate cycle_rgc g \<or> crate_mapped cycle_ctx (cycle_pool g)"
    using cycle_reachable by (auto simp: is_file_in_current_crate_def cycle_rgc_def)
  have third: "EmitPublicImports demo_externals cycle_pool cycle_rgc cycle_ctx 0 [] = None"
    using EmitPublicImports_visits_every_chain
      [of cycle_pool 0 0 demo_externals cycle_rgc cycle_ctx "[]" 0] cyc safe
    by blast
  from first second third show ?thesis by (intro conjI)
qed

lemma diamond_two_paths: "public_path_count diamond_pool (Suc (Suc 0)) 0 3 = 2"
  by (simp add: diamond_pool_def)

lemma pass_context_simps:
  "opts (pass_context ext pool options crate_names parsed_files file) = options"
  "files_in_current_crate (generator_context (pass_context ext pool options crate_names parsed_files file)) = parsed_files"
  "import_path_to_crate_name (generator_context (pass_context ext pool options crate_names parsed_files file)) = crate_names"
  "is_cpp (pass_context ext pool options crate_names parsed_files file) = (kernel options = kCpp)"
  by (simp_all add: pass_context_def is_cpp_def)

lemma out_of_unit_pass_context:
  "out_of_unit (generator_context (pass_context ext pool options crate_names parsed_files file)) vs
     = filter (\<lambda>f. f \<notin> set parsed_files) vs"
  by (simp add: out_of_unit_def is_file_in_current_crate_def pass_context_simps)

lemma Generate_completes:
  assumes parse: "Options_Parse ext parameter = Inr options"
    and crates: "GetImportPathToCrateNameMap ext options = Inr crate_names"
    and unit: "parsed_files = first # non_primary_srcs"
    and depth: "public_depth_le pool n file"
    and mapped: "\<forall>f \<in> set (public_unfold pool n file).
                   f \<notin> set parsed_files \<longrightarrow> crate_names (name (pool f)) \<noteq> None"
    and ctx: "ctx = pass_context ext pool options crate_names parsed_files file"
  shows "Generate ext pool parsed_files file parameter =
           Some (Returned True None,
                 opened_outputs ext ctx (pool file)
                   (submodule_lines ext pool ctx parsed_files file
                    @ public_import_lines ext pool ctx n file
                    @ bindings_types ext ctx (pool file))
                   (thunks_header ext pool ctx (pool file) @ shim_types ext ctx (pool file)))"
proof -
  have m: "\<forall>f \<in> set (out_of_unit (generator_context ctx) (public_unfold pool n file)).
             crate_mapped ctx (pool f)"
    using mapped by (simp add: ctx out_of_unit_pass_context crate_mapped_def pass_context_simps)
  show ?thesis
    using Generate_unfold [OF parse crates unit depth]
    by (simp add: Let_def ctx [symmetric] visit_files_mapped [OF m] public_import_lines_def)
qed

lemma Generate_aborts:
  assumes parse: "Options_Parse ext parameter = Inr options"
    and crates: "GetImportPathToCrateNameMap ext options = Inr crate_names"
    and unit: "parsed_files = first # non_primary_srcs"
    and depth: "public_depth_le pool n file"
    and miss: "\<exists>f \<in> set (public_unfold pool n file).
                 f \<notin> set parsed_files \<and> crate_names (name (pool f)) = None"
    and ctx: "ctx = pass_context ext pool options crate_names parsed_files file"
  shows "\<exists>pre g post.
           public_unfold pool n file = pre @ g # post
         \<and> (\<forall>f \<in> set pre. f \<notin> set parsed_files \<longrightarrow> crate_names (name (pool f)) \<noteq> None)
         \<and> g \<notin> set parsed_files \<and> crate_names (name (pool g)) = None
         \<and> Generate ext pool parsed_files file parameter =
             Some (Fatal (LookupError (name (pool g))),
                   opened_outputs ext ctx (pool file)
                     (submodule_lines ext pool ctx parsed_files file
                      @ concat (map (\<lambda>f. forwarding_block ext ctx (pool f))
                                    (filter (\<lambda>f. f \<notin> set parsed_files) pre)))
                     (thunks_header ext pool ctx (pool file)))"
proof -
  have "\<exists>f \<in> set (out_of_unit (generator_context ctx) (public_unfold pool n file)).
             \<not> crate_mapped ctx (pool f)"
    using miss by (auto simp: ctx out_of_unit_pass_context crate_mapped_def pass_context_simps)
  from visit_files_unmapped [OF this, of ext "submodule_lines ext pool ctx parsed_files file"]
  obtain pre g post where
    split: "public_unfold pool n file = pre @ g # post"
    and pre: "\<forall>f \<in> set (out_of_unit (generator_context ctx) pre). crate_mapped ctx (pool f)"
    and g: "\<not> is_file_in_current_crate (generator_context ctx) g" "\<not> crate_mapped ctx (pool g)"
    and visit: "visit_files ext pool (generator_context ctx) ctx (public_unfold pool n file)
                  (submodule_lines ext pool ctx parsed_files file) =
           (Inl (LookupError (name (pool g))),
            submodule_lines ext pool ctx parsed_files file
            @ concat (map (\<lambda>f. forwarding_block ext ctx (pool f))
                          (out_of_unit (generator_context ctx) pre)))"
    by blast
  have "Generate ext pool parsed_files file parameter =
             Some (Fatal (LookupError (name (pool g))),
                   opened_outputs ext ctx (pool file)
                     (submodule_lines ext pool ctx parsed_files file
                      @ concat (map (\<lambda>f. forwarding_block ext ctx (pool f))
                                    (filter (\<lambda>f. f \<notin> set parsed_files) pre)))
                     (thunks_header ext pool ctx (pool file)))"
    using Generate_unfold [OF parse crates unit depth] visit
    by (simp add: Let_def ctx [symmetric]) (simp add: ctx out_of_unit_pass_context)
  with split pre g show ?thesis
    by (intro exI [of _ pre] exI [of _ g] exI [of _ post])
       (simp add: ctx out_of_unit_pass_context crate_mapped_def pass_context_simps
          is_file_in_current_crate_def)
qed

lemma loop_externals_irrelevant:
  assumes "EmitPublicImports_loop ext' pool rgc ctx stack out = Some y"
    and "\<And>c dep out. EmitPublicImportsForDepFile ext' c dep out =
                       EmitPublicImportsForDepFile ext c dep out"
  shows "EmitPublicImports_loop ext pool rgc ctx stack out = Some y"
  using assms
proof (induction rule: EmitPublicImports_loop.raw_induct [rotated 1, consumes 1])
  case (1 loop ext' pool rgc ctx stack out y)
  note facts = "1"
  show ?case
  proof (cases "stack = []")
    case True
    with facts(2) show ?thesis by (simp add: EmitPublicImports_loop.simps)
  next
    case False
    obtain r out' where step:
      "(if \<not> is_file_in_current_crate rgc (last stack)
        then EmitPublicImportsForDepFile ext ctx (pool (last stack)) out
        else (Inr (), out)) = (r, out')"
      by (cases "if \<not> is_file_in_current_crate rgc (last stack)
        then EmitPublicImportsForDepFile ext ctx (pool (last stack)) out
        else (Inr (), out)") simp
    have step': "(if \<not> is_file_in_current_crate rgc (last stack)
        then EmitPublicImportsForDepFile ext' ctx (pool (last stack)) out
        else (Inr (), out)) = (r, out')"
      using step by (simp add: facts(3) cong: if_cong)
    have run': "(case (r, out') of
                  (Inl e, out') \<Rightarrow> Some (Inl e, out')
                | (Inr u, out') \<Rightarrow>
                    loop ext' pool rgc ctx
                      (butlast stack @ public_dependency (pool (last stack))) out') = Some y"
      using facts(2) False by (simp only: Let_def step' if_False)
    have run: "EmitPublicImports_loop ext pool rgc ctx stack out =
               (case (r, out') of
                  (Inl e, out') \<Rightarrow> Some (Inl e, out')
                | (Inr u, out') \<Rightarrow>
                    EmitPublicImports_loop ext pool rgc ctx
                      (butlast stack @ public_dependency (pool (last stack))) out')"
      using False by (subst EmitPublicImports_loop.simps) (simp only: Let_def step if_False)
    show ?thesis
    proof (cases r)
      case (Inl e)
      with run run' show ?thesis by simp
    next
      case (Inr u)
      with run' have "loop ext' pool rgc ctx
          (butlast stack @ public_dependency (pool (last stack))) out' = Some y"
        by simp
      from facts(1) [OF this facts(3)] Inr run show ?thesis by simp
    qed
  qed
qed

lemma EmitPublicImports_externals_irrelevant:
  assumes "\<And>c dep out. EmitPublicImportsForDepFile ext' c dep out =
                       EmitPublicImportsForDepFile ext c dep out"
  shows "EmitPublicImports ext' pool rgc ctx file out = EmitPublicImports ext pool rgc ctx file out"
proof (cases "EmitPublicImports ext' pool rgc ctx file out")
  case (Some y)
  then show ?thesis
    using loop_externals_irrelevant [of ext' pool rgc ctx "[file]" out y ext] assms
    by (simp add: EmitPublicImports_def)
next
  case None
  show ?thesis
  proof (cases "EmitPublicImports ext pool rgc ctx file out")
    case None
    with \<open>EmitPublicImports ext' pool rgc ctx file out = None\<close> show ?thesis by simp
  next
    case (Some y)
    then have "EmitPublicImports ext' pool rgc ctx file out = Some y"
      using loop_externals_irrelevant [of ext pool rgc ctx "[file]" out y ext'] assms
      by (simp add: EmitPublicImports_def)
    with None show ?thesis by simp
  qed
qed

lemma demo_parse_cpp:
  "Options_Parse demo_externals ''kernel=cpp'' =
     Inr \<lparr>kernel = kCpp, strip_nonfunctional_codegen = False\<rparr>"
  by (simp add: demo_externals_def)

lemma demo_parse_strip:
  "Options_Parse demo_externals ''kernel=cpp,strip'' =
     Inr \<lparr>kernel = kCpp, strip_nonfunctional_codegen = True\<rparr>"
  by (simp add: demo_externals_def)

lemma demo_parse_upb:
  "Options_Parse demo_externals ''kernel=upb'' =
     Inr \<lparr>kernel = kUpb, strip_nonfunctional_codegen = False\<rparr>"
  by (simp add: demo_externals_def)

lemma demo_crates:
  "GetImportPathToCrateNameMap demo_externals options = Inr demo_crate_names"
  by (simp add: demo_externals_def)

lemma demo_depth: "public_depth_le demo_pool (Suc (Suc 0)) 0"
  by (simp add: demo_pool_def)

lemma demo_mapped:
  "\<forall>f \<in> set (public_unfold demo_pool (Suc (Suc 0)) 0).
     f \<notin> set [0, 1] \<longrightarrow> demo_crate_names (name (demo_pool f)) \<noteq> None"
  by (simp add: demo_pool_def demo_crate_names_def)

lemma demo_fields:
  "RustInternalModuleName demo_externals = (\<lambda>file. stem (name file))"
  "GetRsFile demo_externals = (\<lambda>ctx file. stem (name file) @ ''.pb.rs'')"
  "GetThunkCcFile demo_externals = (\<lambda>ctx file. stem (name file) @ ''.pb.thunks.cc'')"
  "GetHeaderFile demo_externals = (\<lambda>ctx file. stem (name file) @ ''.proto.h'')"
  "Relative demo_externals = (\<lambda>from_path to_path. to_path)"
  "IsKnownFeatureProto demo_externals =
     (\<lambda>path. path = ''google/protobuf/cpp_features.proto'')"
  "MessageTypeName demo_externals = full_name"
  "EnumTypeName demo_externals = enum_full_name"
  "GenerateRs demo_externals = (\<lambda>ctx msg. [''pub struct '' @ full_name msg @ '';''])"
  "GenerateThunksCc demo_externals = (\<lambda>ctx msg. [''void thunk_'' @ full_name msg @ ''();''])"
  "GenerateEnumDefinition demo_externals =
     (\<lambda>ctx enum. [''pub enum '' @ enum_full_name enum @ '';''])"
  by (simp_all add: demo_externals_def)

lemma demo_pool_at:
  "demo_pool 0 = \<lparr>name = ''a.proto'', message_type = [Descriptor ''A''], enum_type = [],
                   dependency = [1, 3, 5], public_dependency = [1]\<rparr>"
  "demo_pool (Suc 0) = \<lparr>name = ''b.proto'', message_type = [],
                   enum_type = [EnumDescriptor ''B''],
                   dependency = [2], public_dependency = [2]\<rparr>"
  "demo_pool 2 = \<lparr>name = ''x.proto'', message_type = [Descriptor ''M''],
                   enum_type = [EnumDescriptor ''Q''],
                   dependency = [], public_dependency = []\<rparr>"
  "demo_pool 3 = \<lparr>name = ''p.proto'', message_type = [Descriptor ''P''], enum_type = [],
                   dependency = [4], public_dependency = [4]\<rparr>"
  "demo_pool 4 = \<lparr>name = ''y.proto'', message_type = [Descriptor ''Y''], enum_type = [],
                   dependency = [], public_dependency = []\<rparr>"
  "demo_pool 5 = \<lparr>name = ''google/protobuf/cpp_features.proto'', message_type = [],
                   enum_type = [], dependency = [], public_dependency = []\<rparr>"
  by (simp_all add: demo_pool_def)

lemmas demo_evaluation =
  pass_context_def submodule_lines_def submodule_declaration_def public_import_lines_def
  out_of_unit_def is_file_in_current_crate_def forwarding_block_def
  EmitPublicImportsForDepFile_def GetCrateName_def RsTypePath_def pub_use_message_def
  pub_use_enum_def bindings_types_def shim_types_def thunks_header_def include_line_def
  support_headers_def opened_outputs_def is_cpp_def demo_fields demo_pool_at stem_def
  demo_crate_names_def

text \<open>
  C3. Whenever the public imports below the file under generation are acyclic, the pass
  ends (with a return or with a failed crate lookup), and the bindings output is made of
  the submodule declarations, then the forwarding declarations of files that are all
  outside the compilation unit, then, when the pass returns, the definitions of the
  file's own types. No forwarding declaration is emitted for a file of the unit, however
  the traversal reaches it.
\<close>

theorem Generate_no_forwarding_for_unit_files:
  assumes parse: "Options_Parse ext parameter = Inr options"
    and crates: "GetImportPathToCrateNameMap ext options = Inr crate_names"
    and unit: "parsed_files = first # non_primary_srcs"
    and depth: "public_depth_le pool n file"
    and ctx: "ctx = pass_context ext pool options crate_names parsed_files file"
  shows "\<exists>how emitted thunks.
           Generate ext pool parsed_files file parameter =
             Some (how,
                   \<lparr>outfile = Some (GetRsFile ext ctx (pool file),
                        submodule_lines ext pool ctx parsed_files file
                        @ concat (map (\<lambda>f. forwarding_block ext ctx (pool f)) emitted)
                        @ (if how = Returned True None
                           then bindings_types ext ctx (pool file) else [])),
                    thunks_cc = thunks\<rparr>)
         \<and> (\<forall>f \<in> set emitted. f \<notin> set parsed_files)"
proof -
  let ?sub = "submodule_lines ext pool ctx parsed_files file"
  let ?visit = "visit_files ext pool (generator_context ctx) ctx (public_unfold pool n file) ?sub"
  obtain emitted where
    out: "snd ?visit = ?sub @ concat (map (\<lambda>f. forwarding_block ext ctx (pool f)) emitted)"
    and sub: "set emitted \<subseteq> set (out_of_unit (generator_context ctx) (public_unfold pool n file))"
    using visit_files_emits [of ext pool "generator_context ctx" ctx "public_unfold pool n file" ?sub]
    by blast
  from sub have unit_free: "\<forall>f \<in> set emitted. f \<notin> set parsed_files"
    by (auto simp: ctx out_of_unit_pass_context)
  obtain r rs where visit: "?visit = (r, rs)" by (cases ?visit)
  with out have rs: "rs = ?sub @ concat (map (\<lambda>f. forwarding_block ext ctx (pool f)) emitted)"
    by simp
  show ?thesis
  proof (cases r)
    case (Inl e)
    with visit rs unit_free Generate_unfold [OF parse crates unit depth] show ?thesis
      by (intro exI [of _ "Fatal e"] exI [of _ emitted])
         (simp add: Let_def ctx [symmetric] opened_outputs_def)
  next
    case (Inr u)
    with visit rs unit_free Generate_unfold [OF parse crates unit depth] show ?thesis
      by (intro exI [of _ "Returned True None"] exI [of _ emitted])
         (simp add: Let_def ctx [symmetric] opened_outputs_def)
  qed
qed

theorem Generate_no_forwarding_for_unit_files_witness:
  "\<exists>how emitted thunks.
     Generate demo_externals demo_pool [0, 1] 0 ''kernel=cpp'' =
       Some (how,
             \<lparr>outfile = Some (''a.pb.rs'',
                  submodule_declaration ''b.pb.rs'' ''b''
                  @ concat (map (\<lambda>f. forwarding_block demo_externals
                       (pass_context demo_externals demo_pool
                          \<lparr>kernel = kCpp, strip_nonfunctional_codegen = False\<rparr>
                          demo_crate_names [0, 1] 0) (demo_pool f)) emitted)
                  @ (if how = Returned True None then [''pub struct A;'', ''''] else [])),
              thunks_cc = thunks\<rparr>)
   \<and> 0 \<notin> set emitted \<and> 1 \<notin> set emitted"
proof -
  from Generate_no_forwarding_for_unit_files [OF demo_parse_cpp demo_crates _ demo_depth refl,
      of "[0, 1]" 0 "[1]"]
  obtain how emitted thunks where
    "Generate demo_externals demo_pool [0, 1] 0 ''kernel=cpp'' =
       Some (how,
             \<lparr>outfile = Some (''a.pb.rs'',
                  submodule_declaration ''b.pb.rs'' ''b''
                  @ concat (map (\<lambda>f. forwarding_block demo_externals
                       (pass_context demo_externals demo_pool
                          \<lparr>kernel = kCpp, strip_nonfunctional_codegen = False\<rparr>
                          demo_crate_names [0, 1] 0) (demo_pool f)) emitted)
                  @ (if how = Returned True None then [''pub struct A;'', ''''] else [])),
              thunks_cc = thunks\<rparr>)"
    "\<forall>f \<in> set emitted. f \<notin> set [0, 1]"
    by (auto simp: submodule_lines_def bindings_types_def demo_fields demo_pool_at
          stem_def)
  then show ?thesis
    by (intro exI [of _ how] exI [of _ emitted] exI [of _ thunks]) auto
qed

text \<open>
  C4. On a pass that completes, the bindings output starts with the submodule
  declarations exactly when the file under generation is the first file of the unit:
  then there is, for each other file of the unit and in the order of the unit, one
  \<^verbatim>\<open>#[path]\<close> inclusion of its module and one wildcard re-export, with the path that
  \<^verbatim>\<open>RelativePath::Relative\<close> computes from the generated file of the primary file to the
  generated file of the other file. For any other file of the unit nothing is declared.
\<close>

theorem Generate_submodule_declarations:
  assumes parse: "Options_Parse ext parameter = Inr options"
    and crates: "GetImportPathToCrateNameMap ext options = Inr crate_names"
    and unit: "parsed_files = first # non_primary_srcs"
    and depth: "public_depth_le pool n file"
    and mapped: "\<forall>f \<in> set (public_unfold pool n file).
                   f \<notin> set parsed_files \<longrightarrow> crate_names (name (pool f)) \<noteq> None"
    and ctx: "ctx = pass_context ext pool options crate_names parsed_files file"
  shows \<open>\<exists>thunks.
           Generate ext pool parsed_files file parameter =
             Some (Returned True None,
                   \<lparr>outfile = Some (GetRsFile ext ctx (pool file),
                        (if file = first
                         then concat (map (\<lambda>src.
                                [''#[path="'' @ Relative ext (GetRsFile ext ctx (pool file))
                                                            (GetRsFile ext ctx (pool src)) @ ''"]'',
                                 ''#[allow(non_snake_case)]'',
                                 ''mod '' @ RustInternalModuleName ext (pool src) @ '';'',
                                 '''',
                                 ''#[allow(unused_imports)]'',
                                 ''pub use '' @ RustInternalModuleName ext (pool src) @ ''::*;''])
                                non_primary_srcs)
                         else [])
                        @ public_import_lines ext pool ctx n file
                        @ bindings_types ext ctx (pool file)),
                    thunks_cc = thunks\<rparr>)\<close>
  using Generate_completes [OF parse crates unit depth mapped ctx]
  by (simp add: opened_outputs_def submodule_lines_def submodule_declaration_def unit)

theorem Generate_submodule_declarations_witness:
  \<open>\<exists>thunks.
     Generate demo_externals demo_pool [0, 1] 0 ''kernel=cpp'' =
       Some (Returned True None,
             \<lparr>outfile = Some (''a.pb.rs'',
                  [''#[path="b.pb.rs"]'', ''#[allow(non_snake_case)]'', ''mod b;'', '''',
                   ''#[allow(unused_imports)]'', ''pub use b::*;'',
                   ''pub use ext::M;'', ''pub use ext::MView;'', ''pub use ext::MMut;'',
                   ''pub use ext::Q;'',
                   ''pub struct A;'', '''']),
              thunks_cc = thunks\<rparr>)\<close>
  using Generate_submodule_declarations [OF demo_parse_cpp demo_crates _ demo_depth demo_mapped
      refl, of 0 "[1]"]
  by (simp add: demo_evaluation)

lemma demo_not_primary:
  \<open>Generate demo_externals demo_pool [0, 1] 1 ''kernel=upb'' =
       Some (Returned True None,
             \<lparr>outfile = Some (''b.pb.rs'',
                  [''pub use ext::M;'', ''pub use ext::MView;'', ''pub use ext::MMut;'',
                   ''pub use ext::Q;'',
                   ''pub enum B;'', '''']),
              thunks_cc = None\<rparr>)\<close>
proof -
  have depth: "public_depth_le demo_pool (Suc 0) 1" by (simp add: demo_pool_def)
  have mapped: "\<forall>f \<in> set (public_unfold demo_pool (Suc 0) 1).
     f \<notin> set [0, 1] \<longrightarrow> demo_crate_names (name (demo_pool f)) \<noteq> None"
    by (simp add: demo_pool_def demo_crate_names_def)
  show ?thesis
    using Generate_completes [OF demo_parse_upb demo_crates _ depth mapped refl, of 0 "[1]"]
    by (simp add: demo_evaluation)
qed

text \<open>
  C6. In cpp kernel mode, on a pass that completes, the shim output holds: the include
  of the file's own header; the include of the header of each dependency of the file, in
  order, leaving out a dependency that \<^verbatim>\<open>IsKnownFeatureProto\<close> recognises when
  \<^verbatim>\<open>strip_nonfunctional_codegen\<close> is set; the five support headers; then for each message
  of the file, in order, one marker comment with its full name followed by its thunks;
  then for each enum of the file, in order, one marker comment with its full name.
\<close>

theorem Generate_shim_output:
  assumes parse: "Options_Parse ext parameter = Inr options"
    and crates: "GetImportPathToCrateNameMap ext options = Inr crate_names"
    and unit: "parsed_files = first # non_primary_srcs"
    and depth: "public_depth_le pool n file"
    and mapped: "\<forall>f \<in> set (public_unfold pool n file).
                   f \<notin> set parsed_files \<longrightarrow> crate_names (name (pool f)) \<noteq> None"
    and ctx: "ctx = pass_context ext pool options crate_names parsed_files file"
    and cpp: "kernel options = kCpp"
  shows \<open>\<exists>bindings.
           Generate ext pool parsed_files file parameter =
             Some (Returned True None,
                   \<lparr>outfile = bindings,
                    thunks_cc = Some (GetThunkCcFile ext ctx (pool file),
                      [''#include "'' @ GetHeaderFile ext ctx (pool file) @ ''"'']
                      @ map (\<lambda>d. ''#include "'' @ GetHeaderFile ext ctx (pool d) @ ''"'')
                            (filter (\<lambda>d. \<not> (strip_nonfunctional_codegen options
                                               \<and> IsKnownFeatureProto ext (name (pool d))))
                                    (dependency (pool file)))
                      @ [''#include "google/protobuf/map.h"'',
                         ''#include "google/protobuf/repeated_field.h"'',
                         ''#include "google/protobuf/repeated_ptr_field.h"'',
                         ''#include "rust/cpp_kernel/serialized_data.h"'',
                         ''#include "rust/cpp_kernel/strings.h"'']
                      @ concat (map (\<lambda>msg. [''// '' @ full_name msg]
                                            @ GenerateThunksCc ext ctx msg @ [''''])
                                    (message_type (pool file)))
                      @ concat (map (\<lambda>enum. [''// '' @ enum_full_name enum, ''''])
                                    (enum_type (pool file))))\<rparr>)\<close>
  using Generate_completes [OF parse crates unit depth mapped ctx] cpp
  by (simp add: opened_outputs_def thunks_header_def shim_types_def include_line_def
        support_headers_def ctx pass_context_simps)

theorem Generate_shim_output_witness:
  \<open>\<exists>bindings.
     Generate demo_externals demo_pool [0, 1] 0 ''kernel=cpp,strip'' =
       Some (Returned True None,
             \<lparr>outfile = bindings,
              thunks_cc = Some (''a.pb.thunks.cc'',
                [''#include "a.proto.h"'',
                 ''#include "b.proto.h"'',
                 ''#include "p.proto.h"'',
                 ''#include "google/protobuf/map.h"'',
                 ''#include "google/protobuf/repeated_field.h"'',
                 ''#include "google/protobuf/repeated_ptr_field.h"'',
                 ''#include "rust/cpp_kernel/serialized_data.h"'',
                 ''#include "rust/cpp_kernel/strings.h"'',
                 ''// A'', ''void thunk_A();'', ''''])\<rparr>)\<close>
  using Generate_shim_output [OF demo_parse_strip demo_crates _ demo_depth demo_mapped refl,
      of 0 "[1]"]
  by (simp add: demo_evaluation)

lemma collide_pool_at:
  "collide_pool 0 = \<lparr>name = ''a.proto'', message_type = [], enum_type = [],
                      dependency = [], public_dependency = []\<rparr>"
  "collide_pool (Suc 0) = \<lparr>name = ''x.proto'', message_type = [], enum_type = [],
                      dependency = [], public_dependency = []\<rparr>"
  "collide_pool 2 = \<lparr>name = ''x.protodevel'', message_type = [], enum_type = [],
                      dependency = [], public_dependency = []\<rparr>"
  by (simp_all add: collide_pool_def)

lemma EmitPublicImports_thunks_irrelevant:
  "EmitPublicImports (ext\<lparr>GenerateThunksCc := emitter\<rparr>) pool rgc ctx file out =
     EmitPublicImports ext pool rgc ctx file out"
  by (rule EmitPublicImports_externals_irrelevant)
     (simp add: EmitPublicImportsForDepFile_def split: sum.splits)

lemma message_step_upb:
  "\<not> is_cpp ctx \<Longrightarrow>
     message_step (ext\<lparr>GenerateThunksCc := emitter\<rparr>) ctx = message_step ext ctx"
  by (intro HOL.ext) (simp add: message_step_def)

lemma enum_step_thunks_irrelevant:
  "enum_step (ext\<lparr>GenerateThunksCc := emitter\<rparr>) ctx = enum_step ext ctx"
  by (intro HOL.ext) (simp add: enum_step_def)

lemma Generate_upb_thunks_irrelevant:
  assumes parse: "Options_Parse ext parameter = Inr options" and upb: "kernel options \<noteq> kCpp"
  shows "Generate (ext\<lparr>GenerateThunksCc := emitter\<rparr>) pool parsed_files file parameter =
           Generate ext pool parsed_files file parameter"
proof (cases "GetImportPathToCrateNameMap ext options")
  case (Inl message)
  with parse show ?thesis by (simp add: Generate_def)
next
  case (Inr crate_names)
  show ?thesis
  proof (cases parsed_files)
    case Nil
    with parse Inr show ?thesis by (simp add: Generate_def)
  next
    case (Cons first non_primary_srcs)
    with parse Inr upb show ?thesis
      by (simp add: Generate_def Let_def EmitPublicImports_thunks_irrelevant message_step_upb
            enum_step_thunks_irrelevant is_cpp_def DeclareSubmodulesForNonPrimarySrcs_def
            thunks_header_def primary_file_def
            split: option.splits prod.splits sum.splits)
  qed
qed

lemma Generate_upb_thunks_closed:
  assumes parse: "Options_Parse ext parameter = Inr options" and upb: "kernel options \<noteq> kCpp"
    and run: "Generate ext pool parsed_files file parameter = Some (how, out)"
  shows "thunks_cc out = None"
proof (cases "GetImportPathToCrateNameMap ext options")
  case (Inl message)
  with parse run show ?thesis by (auto simp: Generate_def no_outputs_def)
next
  case (Inr crate_names)
  show ?thesis
  proof (cases parsed_files)
    case Nil
    with parse Inr run show ?thesis by (auto simp: Generate_def no_outputs_def)
  next
    case (Cons first non_primary_srcs)
    with parse Inr upb run show ?thesis
      by (auto simp: Generate_def Let_def is_cpp_def
            split: option.splits prod.splits sum.splits)
  qed
qed

text \<open>
  C7. When the kernel is not cpp, no run of the pass opens the shim output, however the
  pass ends; the result of the pass does not depend on \<^verbatim>\<open>GenerateThunksCc\<close>, which is
  never called; and a pass that completes has opened the bindings output only.
\<close>

theorem Generate_upb_opens_no_shim:
  assumes parse: "Options_Parse ext parameter = Inr options" and upb: "kernel options \<noteq> kCpp"
  shows "(\<forall>how out. Generate ext pool parsed_files file parameter = Some (how, out)
                      \<longrightarrow> thunks_cc out = None)
       \<and> (\<forall>emitter. Generate (ext\<lparr>GenerateThunksCc := emitter\<rparr>) pool parsed_files file parameter
                      = Generate ext pool parsed_files file parameter)
       \<and> (\<forall>crate_names first non_primary_srcs n.
             GetImportPathToCrateNameMap ext options = Inr crate_names
           \<and> parsed_files = first # non_primary_srcs
           \<and> public_depth_le pool n file
           \<and> (\<forall>f \<in> set (public_unfold pool n file).
                  f \<notin> set parsed_files \<longrightarrow> crate_names (name (pool f)) \<noteq> None)
           \<longrightarrow> (\<exists>bindings.
                  Generate ext pool parsed_files file parameter =
                    Some (Returned True None,
                          \<lparr>outfile = Some (GetRsFile ext
                               (pass_context ext pool options crate_names parsed_files file)
                               (pool file), bindings),
                           thunks_cc = None\<rparr>)))"
proof (intro conjI allI impI)
  fix how out
  assume "Generate ext pool parsed_files file parameter = Some (how, out)"
  then show "thunks_cc out = None" by (rule Generate_upb_thunks_closed [OF parse upb])
next
  fix emitter
  show "Generate (ext\<lparr>GenerateThunksCc := emitter\<rparr>) pool parsed_files file parameter
          = Generate ext pool parsed_files file parameter"
    by (rule Generate_upb_thunks_irrelevant [OF parse upb])
next
  fix crate_names first non_primary_srcs n
  assume h: "GetImportPathToCrateNameMap ext options = Inr crate_names
           \<and> parsed_files = first # non_primary_srcs
           \<and> public_depth_le pool n file
           \<and> (\<forall>f \<in> set (public_unfold pool n file).
                  f \<notin> set parsed_files \<longrightarrow> crate_names (name (pool f)) \<noteq> None)"
  then have "Generate ext pool parsed_files file parameter =
       Some (Returned True None,
             opened_outputs ext (pass_context ext pool options crate_names parsed_files file)
               (pool file)
               (submodule_lines ext pool
                  (pass_context ext pool options crate_names parsed_files file) parsed_files file
                @ public_import_lines ext pool
                    (pass_context ext pool options crate_names parsed_files file) n file
                @ bindings_types ext
                    (pass_context ext pool options crate_names parsed_files file) (pool file))
               (thunks_header ext pool
                  (pass_context ext pool options crate_names parsed_files file) (pool file)
                @ shim_types ext
                    (pass_context ext pool options crate_names parsed_files file) (pool file)))"
    by (intro Generate_completes [OF parse _ _ _ _ refl]) simp_all
  with upb show "\<exists>bindings.
                  Generate ext pool parsed_files file parameter =
                    Some (Returned True None,
                          \<lparr>outfile = Some (GetRsFile ext
                               (pass_context ext pool options crate_names parsed_files file)
                               (pool file), bindings),
                           thunks_cc = None\<rparr>)"
    by (simp add: opened_outputs_def pass_context_simps)
qed

theorem Generate_upb_opens_no_shim_witness:
  "(\<exists>bindings.
      Generate demo_externals demo_pool [0, 1] 0 ''kernel=upb'' =
        Some (Returned True None,
              \<lparr>outfile = Some (''a.pb.rs'', bindings), thunks_cc = None\<rparr>))
   \<and> (\<forall>emitter.
        Generate (demo_externals\<lparr>GenerateThunksCc := emitter\<rparr>) demo_pool [0, 1] 0 ''kernel=upb''
          = Generate demo_externals demo_pool [0, 1] 0 ''kernel=upb'')"
proof -
  have upb: "kernel \<lparr>kernel = kUpb, strip_nonfunctional_codegen = False\<rparr> \<noteq> kCpp" by simp
  note inst = Generate_upb_opens_no_shim [OF demo_parse_upb upb, of demo_pool "[0, 1]" 0]
  from inst have "\<exists>bindings.
      Generate demo_externals demo_pool [0, 1] 0 ''kernel=upb'' =
        Some (Returned True None,
              \<lparr>outfile = Some (GetRsFile demo_externals
                   (pass_context demo_externals demo_pool
                      \<lparr>kernel = kUpb, strip_nonfunctional_codegen = False\<rparr>
                      demo_crate_names [0, 1] 0) (demo_pool 0), bindings),
               thunks_cc = None\<rparr>)"
    using demo_crates demo_depth demo_mapped by blast
  moreover from inst have "\<forall>emitter.
        Generate (demo_externals\<lparr>GenerateThunksCc := emitter\<rparr>) demo_pool [0, 1] 0 ''kernel=upb''
          = Generate demo_externals demo_pool [0, 1] 0 ''kernel=upb''"
    by blast
  ultimately show ?thesis
    by (simp add: demo_fields demo_pool_at stem_def)
qed

lemma mod_lines_submodule_declaration:
  "filter (\<lambda>line. take 4 line = ''mod '') (submodule_declaration file_path mod_name) =
     [''mod '' @ mod_name @ '';'']"
  by (simp add: submodule_declaration_def)

lemma mod_lines_DeclareSubmodules:
  "filter (\<lambda>line. take 4 line = ''mod '')
          (DeclareSubmodulesForNonPrimarySrcs ext ctx primary srcs []) =
     map (\<lambda>src. ''mod '' @ RustInternalModuleName ext src @ '';'') srcs"
  by (induction srcs)
     (simp_all add: DeclareSubmodulesForNonPrimarySrcs_def Let_def
        mod_lines_submodule_declaration)

text \<open>
  C9, amended. Generation does not compare the submodule identifiers. When the primary
  file is generated and the pass completes, \<^verbatim>\<open>Generate\<close> returns true and the bindings
  output starts with what \<^verbatim>\<open>DeclareSubmodulesForNonPrimarySrcs\<close> writes, in which there is
  one \<^verbatim>\<open>mod\<close> declaration for each other file of the unit, in order, with the identifier
  that \<^verbatim>\<open>RustInternalModuleName\<close> gives for it, whether or not two of them are equal.
\<close>

theorem Generate_submodule_identifiers_unchecked:
  assumes parse: "Options_Parse ext parameter = Inr options"
    and crates: "GetImportPathToCrateNameMap ext options = Inr crate_names"
    and unit: "parsed_files = file # non_primary_srcs"
    and depth: "public_depth_le pool n file"
    and mapped: "\<forall>f \<in> set (public_unfold pool n file).
                   f \<notin> set parsed_files \<longrightarrow> crate_names (name (pool f)) \<noteq> None"
    and ctx: "ctx = pass_context ext pool options crate_names parsed_files file"
  shows "\<exists>rest thunks.
           Generate ext pool parsed_files file parameter =
             Some (Returned True None,
                   \<lparr>outfile = Some (GetRsFile ext ctx (pool file),
                        DeclareSubmodulesForNonPrimarySrcs ext ctx (pool file)
                          (map pool non_primary_srcs) [] @ rest),
                    thunks_cc = thunks\<rparr>)
         \<and> filter (\<lambda>line. take 4 line = ''mod '')
                  (DeclareSubmodulesForNonPrimarySrcs ext ctx (pool file)
                     (map pool non_primary_srcs) []) =
             map (\<lambda>src. ''mod '' @ RustInternalModuleName ext (pool src) @ '';'')
                 non_primary_srcs"
proof -
  have "submodule_lines ext pool ctx parsed_files file =
          DeclareSubmodulesForNonPrimarySrcs ext ctx (pool file) (map pool non_primary_srcs) []"
    by (simp add: submodule_lines_def DeclareSubmodulesForNonPrimarySrcs_def unit comp_def)
  with Generate_completes [OF parse crates unit depth mapped ctx] show ?thesis
    by (simp add: opened_outputs_def mod_lines_DeclareSubmodules comp_def)
qed

lemma collide_depth: "public_depth_le collide_pool 0 0"
  by (simp add: collide_pool_at)

lemma collide_mapped:
  "\<forall>f \<in> set (public_unfold collide_pool 0 0).
     f \<notin> set [0, 1, 2] \<longrightarrow> demo_crate_names (name (collide_pool f)) \<noteq> None"
  by simp

theorem Generate_submodule_identifiers_unchecked_witness:
  "\<exists>rest thunks.
     Generate demo_externals collide_pool [0, 1, 2] 0 ''kernel=upb'' =
       Some (Returned True None,
             \<lparr>outfile = Some (''a.pb.rs'',
                  DeclareSubmodulesForNonPrimarySrcs demo_externals
                    (pass_context demo_externals collide_pool
                       \<lparr>kernel = kUpb, strip_nonfunctional_codegen = False\<rparr>
                       demo_crate_names [0, 1, 2] 0)
                    (collide_pool 0) (map collide_pool [1, 2]) [] @ rest),
              thunks_cc = thunks\<rparr>)
   \<and> filter (\<lambda>line. take 4 line = ''mod '')
            (DeclareSubmodulesForNonPrimarySrcs demo_externals
               (pass_context demo_externals collide_pool
                  \<lparr>kernel = kUpb, strip_nonfunctional_codegen = False\<rparr>
                  demo_crate_names [0, 1, 2] 0)
               (collide_pool 0) (map collide_pool [1, 2]) []) =
       [''mod x;'', ''mod x;'']"
  using Generate_submodule_identifiers_unchecked [OF demo_parse_upb demo_crates _ collide_depth
      collide_mapped refl, of "[1, 2]"]
  by (simp add: demo_fields collide_pool_at stem_def)

text \<open>
  C9 as stated fails: two files of the unit with the same submodule identifier are both
  declared, and \<^verbatim>\<open>Generate\<close> returns true.
\<close>

theorem Generate_colliding_submodules_accepted:
  \<open>RustInternalModuleName demo_externals (collide_pool 1) = ''x''
   \<and> RustInternalModuleName demo_externals (collide_pool 2) = ''x''
   \<and> Generate demo_externals collide_pool [0, 1, 2] 0 ''kernel=upb'' =
       Some (Returned True None,
             \<lparr>outfile = Some (''a.pb.rs'',
                  [''#[path="x.pb.rs"]'', ''#[allow(non_snake_case)]'', ''mod x;'', '''',
                   ''#[allow(unused_imports)]'', ''pub use x::*;'',
                   ''#[path="x.pb.rs"]'', ''#[allow(non_snake_case)]'', ''mod x;'', '''',
                   ''#[allow(unused_imports)]'', ''pub use x::*;'']),
              thunks_cc = None\<rparr>)\<close>
  using Generate_completes [OF demo_parse_upb demo_crates _ collide_depth collide_mapped refl,
      of 0 "[1, 2]"]
  by (simp add: demo_evaluation collide_pool_at)

lemma demo_private_depth: "public_depth_le demo_pool (Suc 0) 3"
  by (simp add: demo_pool_at)

lemma committed_completed:
  "committed (Some (Returned True None, held)) = held"
  by (simp add: committed_def succeeded_def)

text \<open>
  C5. When the public imports below the file under generation are acyclic and the
  traversal reaches a file outside the unit that the crate mapping does not know, the
  generation of the file fails: the pass ends at such a file with a fatal lookup error
  for its path and does not return true, and nothing is committed for the bindings
  output or for the shim output.
\<close>

theorem Generate_lookup_miss_commits_nothing:
  assumes parse: "Options_Parse ext parameter = Inr options"
    and crates: "GetImportPathToCrateNameMap ext options = Inr crate_names"
    and unit: "parsed_files = first # non_primary_srcs"
    and depth: "public_depth_le pool n file"
    and miss: "\<exists>f \<in> set (public_unfold pool n file).
                 f \<notin> set parsed_files \<and> crate_names (name (pool f)) = None"
  shows "(\<exists>g held.
            g \<in> set (public_unfold pool n file)
          \<and> g \<notin> set parsed_files \<and> crate_names (name (pool g)) = None
          \<and> Generate ext pool parsed_files file parameter =
              Some (Fatal (LookupError (name (pool g))), held))
       \<and> committed (Generate ext pool parsed_files file parameter) =
           \<lparr>outfile = None, thunks_cc = None\<rparr>"
proof -
  from Generate_aborts [OF parse crates unit depth miss refl] obtain pre g post held where
    split: "public_unfold pool n file = pre @ g # post"
    and g: "g \<notin> set parsed_files" "crate_names (name (pool g)) = None"
    and run: "Generate ext pool parsed_files file parameter =
                Some (Fatal (LookupError (name (pool g))), held)"
    by blast
  from split have "g \<in> set (public_unfold pool n file)" by simp
  with g run show ?thesis
    by (auto simp: committed_def succeeded_def no_outputs_def)
qed

theorem Generate_lookup_miss_commits_nothing_witness:
  "(\<exists>g held.
      g \<in> set (public_unfold demo_pool (Suc 0) 3)
    \<and> g \<notin> set [3, 1] \<and> demo_crate_names (name (demo_pool g)) = None
    \<and> Generate demo_externals demo_pool [3, 1] 3 ''kernel=cpp'' =
        Some (Fatal (LookupError (name (demo_pool g))), held))
   \<and> committed (Generate demo_externals demo_pool [3, 1] 3 ''kernel=cpp'') =
       \<lparr>outfile = None, thunks_cc = None\<rparr>"
proof -
  have miss: "\<exists>f \<in> set (public_unfold demo_pool (Suc 0) 3).
                 f \<notin> set [3, 1] \<and> demo_crate_names (name (demo_pool f)) = None"
    by (simp add: demo_pool_at demo_crate_names_def)
  show ?thesis
    by (rule Generate_lookup_miss_commits_nothing
          [OF demo_parse_cpp demo_crates _ demo_private_depth miss,
            where first = 3 and non_primary_srcs = "[1]"]) simp
qed

text \<open>
  What the two printers hold when the lookup fails on \<open>demo_pool\<close>: the submodule
  declarations and the header of the shim were written before the traversal started.
\<close>

lemma demo_lookup_miss_printers:
  \<open>Generate demo_externals demo_pool [3, 1] 3 ''kernel=cpp'' =
     Some (Fatal (LookupError ''y.proto''),
           \<lparr>outfile = Some (''p.pb.rs'',
                [''#[path="b.pb.rs"]'', ''#[allow(non_snake_case)]'', ''mod b;'', '''',
                 ''#[allow(unused_imports)]'', ''pub use b::*;'']),
            thunks_cc = Some (''p.pb.thunks.cc'',
                [''#include "p.proto.h"'',
                 ''#include "y.proto.h"'',
                 ''#include "google/protobuf/map.h"'',
                 ''#include "google/protobuf/repeated_field.h"'',
                 ''#include "google/protobuf/repeated_ptr_field.h"'',
                 ''#include "rust/cpp_kernel/serialized_data.h"'',
                 ''#include "rust/cpp_kernel/strings.h"''])\<rparr>)\<close>
  using Generate_unfold [OF demo_parse_cpp demo_crates _ demo_private_depth, of "[3, 1]" 3 "[1]"]
  by (simp add: demo_evaluation Let_def)

text \<open>
  C10, amended. Once the options have parsed and the crate mapping has loaded,
  \<^verbatim>\<open>Generate\<close> never returns false and never sets the error string: whenever it returns,
  it returns true with the error unset. It does return when the unit is not empty, the
  public imports below the file are acyclic and the crate mapping knows every file
  outside the unit that the traversal reaches.
\<close>

theorem Generate_returns_only_true_after_setup:
  assumes parse: "Options_Parse ext parameter = Inr options"
    and crates: "GetImportPathToCrateNameMap ext options = Inr crate_names"
  shows "(\<forall>result err out.
            Generate ext pool parsed_files file parameter = Some (Returned result err, out)
            \<longrightarrow> result \<and> err = None)
       \<and> (\<forall>first non_primary_srcs n.
             parsed_files = first # non_primary_srcs
           \<and> public_depth_le pool n file
           \<and> (\<forall>f \<in> set (public_unfold pool n file).
                  f \<notin> set parsed_files \<longrightarrow> crate_names (name (pool f)) \<noteq> None)
           \<longrightarrow> (\<exists>out. Generate ext pool parsed_files file parameter
                          = Some (Returned True None, out)))"
proof (rule conjI)
  show "\<forall>result err out.
          Generate ext pool parsed_files file parameter = Some (Returned result err, out)
          \<longrightarrow> result \<and> err = None"
  proof (intro allI impI)
    fix result err out
    assume run: "Generate ext pool parsed_files file parameter = Some (Returned result err, out)"
    show "result \<and> err = None"
    proof (cases parsed_files)
      case Nil
      with parse crates run show ?thesis by (simp add: Generate_def)
    next
      case (Cons first non_primary_srcs)
      with parse crates run show ?thesis
        by (auto simp: Generate_def Let_def split: option.splits prod.splits sum.splits)
    qed
  qed
next
  show "\<forall>first non_primary_srcs n.
             parsed_files = first # non_primary_srcs
           \<and> public_depth_le pool n file
           \<and> (\<forall>f \<in> set (public_unfold pool n file).
                  f \<notin> set parsed_files \<longrightarrow> crate_names (name (pool f)) \<noteq> None)
           \<longrightarrow> (\<exists>out. Generate ext pool parsed_files file parameter
                          = Some (Returned True None, out))"
    using Generate_completes [OF parse crates _ _ _ refl] by blast
qed

theorem Generate_returns_only_true_after_setup_witness:
  "\<exists>out. Generate demo_externals demo_pool [0, 1] 0 ''kernel=upb'' = Some (Returned True None, out)"
  using Generate_returns_only_true_after_setup [OF demo_parse_upb demo_crates,
      of demo_pool "[0, 1]" 0] demo_depth demo_mapped
  by blast

text \<open>
  C10 as stated fails: the options parse and the mapping loads, and the pass ends with a
  fatal lookup error instead of returning true.
\<close>

theorem Generate_lookup_miss_does_not_return:
  "Options_Parse demo_externals ''kernel=upb'' =
     Inr \<lparr>kernel = kUpb, strip_nonfunctional_codegen = False\<rparr>
   \<and> GetImportPathToCrateNameMap demo_externals
       \<lparr>kernel = kUpb, strip_nonfunctional_codegen = False\<rparr> = Inr demo_crate_names
   \<and> Generate demo_externals demo_pool [3] 3 ''kernel=upb'' =
       Some (Fatal (LookupError ''y.proto''),
             \<lparr>outfile = Some (''p.pb.rs'', []), thunks_cc = None\<rparr>)"
  using Generate_unfold [OF demo_parse_upb demo_crates _ demo_private_depth, of "[3]" 3 "[]"]
  by (simp add: demo_evaluation Let_def demo_parse_upb demo_crates)

end
